theory Spec2Isabelle
  imports Main "HOL-Library.Sublist"
begin

section \<open>JavaScript values as src/github.ts uses them\<close>

text \<open>
  A value of type \<open>T | undefined\<close> (or \<open>T | null\<close>) is a \<open>T option\<close>. JavaScript
  truthiness, as \<open>if (v)\<close>, \<open>a || b\<close> and \<open>a && b\<close> test it: \<open>undefined\<close>, \<open>null\<close>,
  \<open>false\<close> and the empty string are falsy.
\<close>

definition truthy_str :: "string option \<Rightarrow> bool" where
  "truthy_str v = (case v of None \<Rightarrow> False | Some s \<Rightarrow> s \<noteq> [])"

definition truthy_bool :: "bool option \<Rightarrow> bool" where
  "truthy_bool v = (case v of None \<Rightarrow> False | Some b \<Rightarrow> b)"

text \<open>\<open>a || b\<close> where \<open>a\<close> is \<open>string | undefined | null\<close> and \<open>b\<close> is a string.\<close>

definition or_str :: "string option \<Rightarrow> string \<Rightarrow> string" where
  "or_str a b = (case a of None \<Rightarrow> b | Some s \<Rightarrow> if s \<noteq> [] then s else b)"

text \<open>\<open>s.split(c)\<close> for a one-character separator: always at least one piece.\<close>

fun split_on :: "char \<Rightarrow> string \<Rightarrow> string list" where
  "split_on c [] = [[]]"
| "split_on c (x # xs) =
     (if x = c then [] # split_on c xs
      else (case split_on c xs of [] \<Rightarrow> [[x]] | w # ws \<Rightarrow> (x # w) # ws))"

text \<open>\<open>s.replace(pat, rep)\<close> with a string pattern: only the first occurrence.\<close>

fun replace_first :: "string \<Rightarrow> string \<Rightarrow> string \<Rightarrow> string" where
  "replace_first pat rep [] = (if pat = [] then rep else [])"
| "replace_first pat rep (c # cs) =
     (if prefix pat (c # cs) then rep @ drop (length pat) (c # cs)
      else c # replace_first pat rep cs)"

text \<open>Array destructuring \<open>const [a, b] = xs\<close>: a missing element is \<open>undefined\<close>.\<close>

definition nth_opt :: "'a list \<Rightarrow> nat \<Rightarrow> 'a option" where
  "nth_opt xs i = (if i < length xs then Some (xs ! i) else None)"

text \<open>Decimal rendering of a number in a template string.\<close>

fun show_nat :: "nat \<Rightarrow> string" where
  "show_nat n =
     (if n < 10 then [char_of (48 + n)]
      else show_nat (n div 10) @ [char_of (48 + n mod 10)])"

declare show_nat.simps [simp del]

definition show_int :: "int \<Rightarrow> string" where
  "show_int i = (if i < 0 then CHR ''-'' # show_nat (nat (- i)) else show_nat (nat i))"

text \<open>A value rendered in a template string: \<open>undefined\<close> prints as the word.\<close>

definition show_opt :: "string option \<Rightarrow> string" where
  "show_opt v = (case v of None \<Rightarrow> ''undefined'' | Some s \<Rightarrow> s)"

subsection \<open>Thrown values\<close>

text \<open>
  What a rejected client call throws is an object; the code reads its \<open>status\<close>
  (line 260, line 301) and \<open>response.data.errors\<close> (line 302). \<open>Rejected\<close> carries
  those two properties, each possibly \<open>undefined\<close>; \<open>js_data\<close> holds the JSON text of
  the \<open>errors\<close> property. \<open>Error\<close> is \<open>new Error(msg)\<close>; \<open>TypeError\<close> is what the
  runtime throws when a property of \<open>undefined\<close> is read.
\<close>

datatype js_data = Data (data_errors: "string option")

datatype js_response = Response (response_data: "js_data option")

datatype js_error =
    Rejected (rejected_status: "int option") (rejected_response: "js_response option")
  | TypeError
  | Error string

fun status :: "js_error \<Rightarrow> int option" where
  "status (Rejected s r) = s"
| "status TypeError = None"
| "status (Error m) = None"

fun response :: "js_error \<Rightarrow> js_response option" where
  "response (Rejected s r) = r"
| "response TypeError = None"
| "response (Error m) = None"

section \<open>Data model\<close>

text \<open>
  \<open>Config\<close> is declared in \<open>./util\<close>; these are the fields src/github.ts reads, with
  the types its uses give them. \<open>input_body\<close> and \<open>input_body_path\<close> are read by
  \<open>releaseBody\<close> only.
\<close>

record Config =
  github_token :: string
  github_ref :: string
  github_repository :: string
  github_sha :: string
  input_name :: "string option"
  input_tag_name :: "string option"
  input_body :: "string option"
  input_body_path :: "string option"
  input_target_commitish :: "string option"
  input_discussion_category_name :: "string option"
  input_generate_release_notes :: "bool option"
  input_draft :: "bool option"
  input_prerelease :: "bool option"
  input_append_body :: "bool option"
  input_update_tag :: "bool option"
  input_overwrite_files :: "bool option"

text \<open>
  \<open>isTag\<close> and \<open>releaseBody\<close> are imported from \<open>./util\<close> (line 3): parameters of
  the model.
\<close>

record Util =
  isTag :: "string \<Rightarrow> bool"
  releaseBody :: "Config \<Rightarrow> string option"

text \<open>Lines 10-15.\<close>

record ReleaseAsset =
  asset_name :: string
  asset_mime :: string
  asset_size :: nat
  asset_data :: string

text \<open>Line 27, line 170: \<open>{ id: number; name: string }\<close>.\<close>

record AssetRef =
  ref_id :: int
  ref_name :: string

text \<open>Lines 17-28.\<close>

record Release =
  rel_id :: int
  rel_upload_url :: string
  rel_html_url :: string
  rel_tag_name :: string
  rel_name :: "string option"
  rel_body :: "string option"
  rel_target_commitish :: string
  rel_draft :: bool
  rel_prerelease :: bool
  rel_assets :: "AssetRef list"

subsection \<open>Parameters of the client calls (lines 30-77)\<close>

text \<open>
  \<open>owner\<close> and \<open>repo\<close> come from destructuring \<open>github_repository.split("/")\<close>, so
  either may be \<open>undefined\<close>.
\<close>

record tag_params =
  tp_owner :: "string option"
  tp_repo :: "string option"
  tp_tag :: string

record create_params =
  cp_owner :: "string option"
  cp_repo :: "string option"
  cp_tag_name :: string
  cp_name :: string
  cp_body :: "string option"
  cp_draft :: "bool option"
  cp_prerelease :: "bool option"
  cp_target_commitish :: "string option"
  cp_discussion_category_name :: "string option"
  cp_generate_release_notes :: "bool option"

record update_params =
  up_owner :: "string option"
  up_repo :: "string option"
  up_release_id :: int
  up_tag_name :: string
  up_target_commitish :: string
  up_name :: string
  up_body :: "string option"
  up_draft :: "bool option"
  up_prerelease :: "bool option"
  up_discussion_category_name :: "string option"
  up_generate_release_notes :: "bool option"

record list_params =
  lp_owner :: "string option"
  lp_repo :: "string option"

record createRef_params =
  crf_owner :: "string option"
  crf_repo :: "string option"
  crf_ref :: string
  crf_sha :: string

record deleteRef_params =
  drf_owner :: "string option"
  drf_repo :: "string option"
  drf_ref :: string

text \<open>
  The \<open>Releaser\<close> interface over a remote state \<open>'s\<close>: a call returns what it resolves
  to, or what it rejects with, and the remote state after it. \<open>allReleases\<close> gives the
  pages of the iterator in order: a page is a batch of releases, or the error that
  fetching it throws; the sequence of pages is finite.
\<close>

record 's Releaser =
  getReleaseByTag :: "tag_params \<Rightarrow> 's \<Rightarrow> (js_error + Release) \<times> 's"
  createRelease :: "create_params \<Rightarrow> 's \<Rightarrow> (js_error + Release) \<times> 's"
  updateRelease :: "update_params \<Rightarrow> 's \<Rightarrow> (js_error + Release) \<times> 's"
  allReleases :: "list_params \<Rightarrow> 's \<Rightarrow> (js_error + Release list) list \<times> 's"
  createRef :: "createRef_params \<Rightarrow> 's \<Rightarrow> (js_error + unit) \<times> 's"
  deleteRef :: "deleteRef_params \<Rightarrow> 's \<Rightarrow> (js_error + unit) \<times> 's"

subsection \<open>What the upload function talks to (lines 152-213)\<close>

record delete_asset_params =
  da_asset_id :: int
  da_owner :: "string option"
  da_repo :: "string option"

text \<open>A parsed \<open>URL\<close>: the address and its query parameters, in order.\<close>

record endpoint =
  ep_href :: string
  ep_search :: "(string \<times> string) list"

text \<open>Lines 195-203: the arguments of \<open>fetch\<close>.\<close>

record request =
  rq_endpoint :: endpoint
  rq_headers :: "(string \<times> string) list"
  rq_method :: string
  rq_body :: string

text \<open>
  The decoded body of the upload response, an object: the text of its \<open>message\<close>
  property and the JSON text of its \<open>errors\<close> property, each possibly \<open>undefined\<close>.
\<close>

record json_body =
  jb_message :: "string option"
  jb_errors :: "string option"

text \<open>\<open>resp.json()\<close> rejects when the body is not JSON.\<close>

record fetch_response =
  resp_status :: int
  resp_json :: "js_error + json_body"

text \<open>
  The file system (\<open>statSync\<close>, \<open>readFileSync\<close>), \<open>path.basename\<close>,
  \<open>mime.getType\<close>, the \<open>URL\<close> constructor, the GitHub client's
  \<open>rest.repos.deleteReleaseAsset\<close> and \<open>fetch\<close>.
\<close>

record 's UploadEnv =
  basename :: "string \<Rightarrow> string"
  getType :: "string \<Rightarrow> string option"
  statSync :: "string \<Rightarrow> js_error + nat"
  readFileSync :: "string \<Rightarrow> js_error + string"
  newURL :: "string \<Rightarrow> js_error + endpoint"
  deleteReleaseAsset :: "delete_asset_params \<Rightarrow> 's \<Rightarrow> (js_error + unit) \<times> 's"
  fetch :: "request \<Rightarrow> 's \<Rightarrow> (js_error + fetch_response) \<times> 's"

text \<open>
  The calls a run of \<open>release\<close> or \<open>upload\<close> makes, in the order it makes them;
  \<open>Sleep ms\<close> is \<open>await sleep(ms)\<close>.
\<close>

datatype event =
    AllReleases list_params
  | GetReleaseByTag tag_params
  | CreateRelease create_params
  | UpdateRelease update_params
  | DeleteRef deleteRef_params
  | CreateRef createRef_params
  | Sleep nat
  | DeleteReleaseAsset delete_asset_params
  | Fetch request

type_synonym 's run = "'s \<times> event list"

text \<open>One awaited call: the remote state moves on and the call is recorded.\<close>

definition call :: "event \<Rightarrow> ('s \<Rightarrow> 'a \<times> 's) \<Rightarrow> 's run \<Rightarrow> 'a \<times> 's run" where
  "call ev f st = (case f (fst st) of (r, s') \<Rightarrow> (r, (s', snd st @ [ev])))"

section \<open>The release function (lines 215-399)\<close>

text \<open>Line 225.\<close>

definition owner_repo :: "Config \<Rightarrow> string option \<times> string option" where
  "owner_repo config =
     (let parts = split_on CHR ''/'' (github_repository config)
      in (nth_opt parts 0, nth_opt parts 1))"

text \<open>Lines 226-230.\<close>

definition resolve_tag :: "Util \<Rightarrow> Config \<Rightarrow> string" where
  "resolve_tag u config =
     or_str (input_tag_name config)
       (if isTag u (github_ref config)
        then replace_first ''refs/tags/'' '''' (github_ref config)
        else '''')"

text \<open>
  Lines 238-246, the \<open>for await\<close> loop: a page that fails to load throws; the first
  release of a page whose tag matches is returned; otherwise the next page is read.
\<close>

fun scan_pages :: "string \<Rightarrow> (js_error + Release list) list \<Rightarrow> js_error + Release option" where
  "scan_pages tag [] = Inr None"
| "scan_pages tag (Inl e # pages) = Inl e"
| "scan_pages tag (Inr rels # pages) =
     (case find (\<lambda>release. rel_tag_name release = tag) rels of
        Some release \<Rightarrow> Inr (Some release)
      | None \<Rightarrow> scan_pages tag pages)"

text \<open>Lines 235-247: \<open>Inr (Some r)\<close> is the \<open>return release\<close> of line 244.\<close>

definition draft_scan ::
  "'s Releaser \<Rightarrow> Config \<Rightarrow> string option \<Rightarrow> string option \<Rightarrow> string \<Rightarrow> 's run
    \<Rightarrow> (js_error + Release option) \<times> 's run" where
  "draft_scan releaser config owner repo tag st =
     (if truthy_bool (input_draft config) then
        (let params = \<lparr>lp_owner = owner, lp_repo = repo\<rparr> in
         case call (AllReleases params) (allReleases releaser params) st of
           (pages, st1) \<Rightarrow> (scan_pages tag pages, st1))
      else (Inr None, st))"

text \<open>
  Lines 249-268: \<open>Inr None\<close> is \<open>existingRelease == null\<close> after a 404; any other
  error is thrown again.
\<close>

definition lookup ::
  "'s Releaser \<Rightarrow> string option \<Rightarrow> string option \<Rightarrow> string \<Rightarrow> 's run
    \<Rightarrow> (js_error + Release option) \<times> 's run" where
  "lookup releaser owner repo tag st =
     (let params = \<lparr>tp_owner = owner, tp_repo = repo, tp_tag = tag\<rparr> in
      case call (GetReleaseByTag params) (getReleaseByTag releaser params) st of
        (Inr existingRelease, st1) \<Rightarrow> (Inr (Some existingRelease), st1)
      | (Inl e, st1) \<Rightarrow>
          (if status e = Some 404 then (Inr None, st1) else (Inl e, st1)))"

text \<open>Lines 270-275 and 284-295.\<close>

definition create_release_params ::
  "Util \<Rightarrow> Config \<Rightarrow> string option \<Rightarrow> string option \<Rightarrow> string \<Rightarrow> create_params" where
  "create_release_params u config owner repo tag =
     \<lparr>cp_owner = owner, cp_repo = repo,
      cp_tag_name = tag,
      cp_name = or_str (input_name config) tag,
      cp_body = releaseBody u config,
      cp_draft = input_draft config,
      cp_prerelease = input_prerelease config,
      cp_target_commitish = input_target_commitish config,
      cp_discussion_category_name = input_discussion_category_name config,
      cp_generate_release_notes = input_generate_release_notes config\<rparr>"

text \<open>
  Lines 299-305: the template string of the \<open>catch\<close> block reads
  \<open>error.response.data.errors\<close>. Reading \<open>.data\<close> of an undefined \<open>response\<close>, or
  \<open>.errors\<close> of an undefined \<open>data\<close>, throws a TypeError out of the handler. What is
  printed is not modelled.
\<close>

definition retry_log :: "js_error \<Rightarrow> js_error + unit" where
  "retry_log error =
     (case response error of
        None \<Rightarrow> Inl TypeError
      | Some r \<Rightarrow> (case response_data r of None \<Rightarrow> Inl TypeError | Some d \<Rightarrow> Inr ()))"

text \<open>
  One pass through the body of \<open>release\<close> ends with a result (\<open>Done\<close>) or at the
  recursive call of line 306 (\<open>Retry\<close>).
\<close>

datatype 's attempt = Done "(js_error + Release) \<times> 's run" | Retry "'s run"

text \<open>Lines 269-307, the branch \<open>existingRelease == null\<close>.\<close>

definition create_path ::
  "Util \<Rightarrow> 's Releaser \<Rightarrow> Config \<Rightarrow> string option \<Rightarrow> string option \<Rightarrow> string \<Rightarrow> 's run
    \<Rightarrow> 's attempt" where
  "create_path u releaser config owner repo tag st =
     (let params = create_release_params u config owner repo tag in
      case call (CreateRelease params) (createRelease releaser params) st of
        (Inr release, st1) \<Rightarrow> Done (Inr release, st1)
      | (Inl error, st1) \<Rightarrow>
          (case retry_log error of
             Inl e \<Rightarrow> Done (Inl e, st1)
           | Inr _ \<Rightarrow> Retry st1))"

text \<open>
  Lines 310-360 and 384-396. The block of lines 323-337 only declares locals that
  shadow the outer ones, so it changes nothing.
\<close>

definition update_release_params ::
  "Util \<Rightarrow> Config \<Rightarrow> string option \<Rightarrow> string option \<Rightarrow> string \<Rightarrow> Release \<Rightarrow> update_params" where
  "update_release_params u config owner repo tag existingRelease =
     (let release_id = rel_id existingRelease;
          target_commitish =
            (if truthy_str (input_target_commitish config) \<and>
                input_target_commitish config \<noteq> Some (rel_target_commitish existingRelease)
             then the (input_target_commitish config)
             else rel_target_commitish existingRelease);
          tag_name = tag;
          name = or_str (input_name config) (or_str (rel_name existingRelease) tag);
          workflowBody = or_str (releaseBody u config) '''';
          existingReleaseBody = or_str (rel_body existingRelease) '''';
          body =
            (if truthy_bool (input_append_body config) \<and> workflowBody \<noteq> [] \<and>
                existingReleaseBody \<noteq> []
             then existingReleaseBody @ [CHR 0x0A] @ workflowBody
             else if workflowBody \<noteq> [] then workflowBody else existingReleaseBody);
          draft =
            (case input_draft config of
               Some d \<Rightarrow> d
             | None \<Rightarrow> rel_draft existingRelease);
          prerelease =
            (case input_prerelease config of
               Some p \<Rightarrow> p
             | None \<Rightarrow> rel_prerelease existingRelease)
      in \<lparr>up_owner = owner, up_repo = repo,
          up_release_id = release_id,
          up_tag_name = tag_name,
          up_target_commitish = target_commitish,
          up_name = name,
          up_body = Some body,
          up_draft = Some draft,
          up_prerelease = Some prerelease,
          up_discussion_category_name = input_discussion_category_name config,
          up_generate_release_notes = input_generate_release_notes config\<rparr>)"

text \<open>Lines 362-382: a failing \<open>deleteRef\<close> or \<open>createRef\<close> throws.\<close>

definition update_tag_ref ::
  "'s Releaser \<Rightarrow> Config \<Rightarrow> string option \<Rightarrow> string option \<Rightarrow> Release \<Rightarrow> 's run
    \<Rightarrow> (js_error + unit) \<times> 's run" where
  "update_tag_ref releaser config owner repo existingRelease st =
     (if truthy_bool (input_update_tag config) then
        (let dparams = \<lparr>drf_owner = owner, drf_repo = repo,
                        drf_ref = ''tags/'' @ rel_tag_name existingRelease\<rparr> in
         case call (DeleteRef dparams) (deleteRef releaser dparams) st of
           (Inl e, st1) \<Rightarrow> (Inl e, st1)
         | (Inr _, st1) \<Rightarrow>
             (let cparams = \<lparr>crf_owner = owner, crf_repo = repo,
                             crf_ref = ''refs/tags/'' @ rel_tag_name existingRelease,
                             crf_sha = github_sha config\<rparr> in
              case call (CreateRef cparams) (createRef releaser cparams) st1 of
                (Inl e, st2) \<Rightarrow> (Inl e, st2)
              | (Inr _, st2) \<Rightarrow> call (Sleep 2000) (\<lambda>s. (Inr (), s)) st2))
      else (Inr (), st))"

text \<open>Lines 308-398, the branch \<open>existingRelease != null\<close>.\<close>

definition update_path ::
  "Util \<Rightarrow> 's Releaser \<Rightarrow> Config \<Rightarrow> string option \<Rightarrow> string option \<Rightarrow> string \<Rightarrow> Release
    \<Rightarrow> 's run \<Rightarrow> (js_error + Release) \<times> 's run" where
  "update_path u releaser config owner repo tag existingRelease st =
     (let params = update_release_params u config owner repo tag existingRelease in
      case update_tag_ref releaser config owner repo existingRelease st of
        (Inl e, st1) \<Rightarrow> (Inl e, st1)
      | (Inr _, st1) \<Rightarrow> call (UpdateRelease params) (updateRelease releaser params) st1)"

text \<open>Lines 225-305: the body of \<open>release\<close> after the guard on \<open>maxRetries\<close>.\<close>

definition release_attempt :: "Util \<Rightarrow> 's Releaser \<Rightarrow> Config \<Rightarrow> 's run \<Rightarrow> 's attempt" where
  "release_attempt u releaser config st =
     (let (owner, repo) = owner_repo config;
          tag = resolve_tag u config
      in (case draft_scan releaser config owner repo tag st of
            (Inl e, st1) \<Rightarrow> Done (Inl e, st1)
          | (Inr (Some release), st1) \<Rightarrow> Done (Inr release, st1)
          | (Inr None, st1) \<Rightarrow>
              (case lookup releaser owner repo tag st1 of
                 (Inl e, st2) \<Rightarrow> Done (Inl e, st2)
               | (Inr None, st2) \<Rightarrow> create_path u releaser config owner repo tag st2
               | (Inr (Some existingRelease), st2) \<Rightarrow>
                   Done (update_path u releaser config owner repo tag existingRelease st2))))"

text \<open>
  Lines 215-223 and the recursion of line 306. \<open>maxRetries\<close> is an integer; the
  recursion ends because it decreases while positive.
\<close>

function release ::
  "Util \<Rightarrow> 's Releaser \<Rightarrow> Config \<Rightarrow> int \<Rightarrow> 's run \<Rightarrow> (js_error + Release) \<times> 's run" where
  "release u releaser config maxRetries st =
     (if maxRetries \<le> 0 then (Inl (Error ''Too many retries.''), st)
      else (case release_attempt u releaser config st of
              Done result \<Rightarrow> result
            | Retry st1 \<Rightarrow> release u releaser config (maxRetries - 1) st1))"
  by pat_completeness auto
termination
  by (relation "measure (\<lambda>(u, releaser, config, maxRetries, st). nat maxRetries)") auto

declare release.simps [simp del]

section \<open>The upload function (lines 152-213)\<close>

text \<open>Lines 161-163.\<close>

definition mimeOrDefault :: "'s UploadEnv \<Rightarrow> string \<Rightarrow> string" where
  "mimeOrDefault env path = or_str (getType env path) ''application/octet-stream''"

text \<open>Lines 152-159: the properties are evaluated in order, so \<open>statSync\<close> throws first.\<close>

definition asset :: "'s UploadEnv \<Rightarrow> string \<Rightarrow> js_error + ReleaseAsset" where
  "asset env path =
     (case statSync env path of
        Inl e \<Rightarrow> Inl e
      | Inr sz \<Rightarrow>
          (case readFileSync env path of
             Inl e \<Rightarrow> Inl e
           | Inr bytes \<Rightarrow>
               Inr \<lparr>asset_name = basename env path,
                    asset_mime = mimeOrDefault env path,
                    asset_size = sz,
                    asset_data = bytes\<rparr>))"

text \<open>Lines 194-203.\<close>

definition upload_request :: "Config \<Rightarrow> ReleaseAsset \<Rightarrow> endpoint \<Rightarrow> request" where
  "upload_request config a url0 =
     \<lparr>rq_endpoint = url0\<lparr>ep_search := ep_search url0 @ [(''name'', asset_name a)]\<rparr>,
      rq_headers =
        [(''content-length'', show_nat (asset_size a)),
         (''content-type'', asset_mime a),
         (''authorization'', ''token '' @ github_token config)],
      rq_method = ''POST'',
      rq_body = asset_data a\<rparr>"

text \<open>Lines 206-210.\<close>

definition upload_failure_message :: "string \<Rightarrow> int \<Rightarrow> json_body \<Rightarrow> string" where
  "upload_failure_message name st json =
     ''Failed to upload release asset '' @ name @ ''. received status code '' @
     show_int st @ [CHR 0x0A] @ show_opt (jb_message json) @ [CHR 0x0A] @
     show_opt (jb_errors json)"

text \<open>Lines 204-212; \<open>Inr (Some json)\<close> is \<open>return json\<close>.\<close>

definition upload_response :: "string \<Rightarrow> fetch_response \<Rightarrow> js_error + json_body option" where
  "upload_response name resp =
     (case resp_json resp of
        Inl e \<Rightarrow> Inl e
      | Inr json \<Rightarrow>
          (if resp_status resp \<noteq> 201
           then Inl (Error (upload_failure_message name (resp_status resp) json))
           else Inr (Some json)))"

text \<open>Lines 192-212.\<close>

definition upload_file ::
  "'s UploadEnv \<Rightarrow> Config \<Rightarrow> string \<Rightarrow> ReleaseAsset \<Rightarrow> 's run
    \<Rightarrow> (js_error + json_body option) \<times> 's run" where
  "upload_file env config url a st =
     (case newURL env url of
        Inl e \<Rightarrow> (Inl e, st)
      | Inr url0 \<Rightarrow>
          (let req = upload_request config a url0 in
           case call (Fetch req) (fetch env req) st of
             (Inl e, st1) \<Rightarrow> (Inl e, st1)
           | (Inr resp, st1) \<Rightarrow> (upload_response (asset_name a) resp, st1)))"

text \<open>Line 186: \<open>currentAsset.id || 1\<close>.\<close>

definition delete_params ::
  "string option \<Rightarrow> string option \<Rightarrow> AssetRef \<Rightarrow> delete_asset_params" where
  "delete_params owner repo currentAsset =
     \<lparr>da_asset_id = (if ref_id currentAsset = 0 then 1 else ref_id currentAsset),
      da_owner = owner, da_repo = repo\<rparr>"

text \<open>Lines 165-213; \<open>Inr None\<close> is \<open>return null\<close> (line 182).\<close>

definition upload ::
  "'s UploadEnv \<Rightarrow> Config \<Rightarrow> string \<Rightarrow> string \<Rightarrow> AssetRef list \<Rightarrow> 's run
    \<Rightarrow> (js_error + json_body option) \<times> 's run" where
  "upload env config url path currentAssets st =
     (let (owner, repo) = owner_repo config in
      case asset env path of
        Inl e \<Rightarrow> (Inl e, st)
      | Inr a \<Rightarrow>
          (case find (\<lambda>c. ref_name c = asset_name a) currentAssets of
             None \<Rightarrow> upload_file env config url a st
           | Some currentAsset \<Rightarrow>
               (if input_overwrite_files config = Some False then (Inr None, st)
                else
                  (let dparams = delete_params owner repo currentAsset in
                   case call (DeleteReleaseAsset dparams) (deleteReleaseAsset env dparams) st of
                     (Inl e, st1) \<Rightarrow> (Inl e, st1)
                   | (Inr _, st1) \<Rightarrow> upload_file env config url a st1))))"

section \<open>Observing a run\<close>

text \<open>The calls recorded by a run, oldest first.\<close>

definition trace :: "'a \<times> 's run \<Rightarrow> event list" where
  "trace result = snd (snd result)"

fun is_create :: "event \<Rightarrow> bool" where
  "is_create (CreateRelease p) = True"
| "is_create _ = False"

section \<open>Example inputs\<close>

text \<open>
  A tag push to \<open>octo/repo\<close>, with \<open>isTag\<close> and \<open>releaseBody\<close> as the simplest
  functions of their kind: a test on the prefix \<open>refs/tags/\<close> and the configured body.
\<close>

definition ex_util :: Util where
  "ex_util = \<lparr>isTag = prefix ''refs/tags/'', releaseBody = input_body\<rparr>"

definition ex_config :: Config where
  "ex_config =
     \<lparr>github_token = ''secret'', github_ref = ''refs/tags/v1.0'',
      github_repository = ''octo/repo'', github_sha = ''abc123'',
      input_name = None, input_tag_name = None, input_body = Some ''B'',
      input_body_path = None, input_target_commitish = None,
      input_discussion_category_name = None, input_generate_release_notes = None,
      input_draft = None, input_prerelease = None, input_append_body = Some True,
      input_update_tag = None, input_overwrite_files = None\<rparr>"

definition ex_release :: Release where
  "ex_release =
     \<lparr>rel_id = 7, rel_upload_url = ''https://uploads.example/7/assets'',
      rel_html_url = ''https://example/7'', rel_tag_name = ''v1.0'',
      rel_name = None, rel_body = Some ''A'', rel_target_commitish = ''main'',
      rel_draft = True, rel_prerelease = True, rel_assets = []\<rparr>"

definition other_release :: Release where
  "other_release = ex_release\<lparr>rel_id := 8, rel_tag_name := ''v0.9''\<rparr>"

definition updated :: "update_params \<Rightarrow> Release" where
  "updated p =
     ex_release\<lparr>rel_name := Some (up_name p), rel_body := up_body p,
       rel_target_commitish := up_target_commitish p\<rparr>"

text \<open>
  A client without state: the lookup by tag always gives \<open>found\<close>, a creation always
  gives \<open>created\<close>, the list of releases has the pages \<open>pages\<close>, and the other calls
  succeed.
\<close>

definition stub_releaser ::
  "(js_error + Release) \<Rightarrow> (js_error + Release) \<Rightarrow> (js_error + Release list) list
    \<Rightarrow> unit Releaser" where
  "stub_releaser found created pages =
     \<lparr>getReleaseByTag = (\<lambda>p s. (found, s)),
      createRelease = (\<lambda>p s. (created, s)),
      updateRelease = (\<lambda>p s. (Inr (updated p), s)),
      allReleases = (\<lambda>p s. (pages, s)),
      createRef = (\<lambda>p s. (Inr (), s)),
      deleteRef = (\<lambda>p s. (Inr (), s))\<rparr>"

text \<open>
  An HTTP 404, an HTTP 422 with its error list, an HTTP 403, and an error without a
  response.
\<close>

definition not_found :: js_error where
  "not_found = Rejected (Some 404) (Some (Response (Some (Data None))))"

definition already_exists :: js_error where
  "already_exists =
     Rejected (Some 422) (Some (Response (Some (Data (Some ''[{code:already_exists}]'')))))"

definition forbidden :: js_error where
  "forbidden = Rejected (Some 403) (Some (Response (Some (Data None))))"

definition socket_hang_up :: js_error where
  "socket_hang_up = Error ''socket hang up''"

definition ex_owner :: "string option" where
  "ex_owner = Some ''octo''"

definition ex_repo :: "string option" where
  "ex_repo = Some ''repo''"

definition ex_tag_params :: tag_params where
  "ex_tag_params = \<lparr>tp_owner = ex_owner, tp_repo = ex_repo, tp_tag = ''v1.0''\<rparr>"

definition ex_list_params :: list_params where
  "ex_list_params = \<lparr>lp_owner = ex_owner, lp_repo = ex_repo\<rparr>"

text \<open>The file \<open>dist/app.zip\<close>, three bytes long, and a service without state.\<close>

definition ex_json :: json_body where
  "ex_json = \<lparr>jb_message = Some ''Validation Failed'', jb_errors = Some ''[{code:already_exists}]''\<rparr>"

definition ex_response :: "int \<Rightarrow> fetch_response" where
  "ex_response st = \<lparr>resp_status = st, resp_json = Inr ex_json\<rparr>"

definition stub_env ::
  "(js_error + unit) \<Rightarrow> (js_error + fetch_response) \<Rightarrow> unit UploadEnv" where
  "stub_env deleted fetched =
     \<lparr>basename = (\<lambda>p. last (split_on CHR ''/'' p)),
      getType = (\<lambda>p. Some ''application/zip''),
      statSync = (\<lambda>p. Inr 3),
      readFileSync = (\<lambda>p. Inr ''PK!''),
      newURL = (\<lambda>u. Inr \<lparr>ep_href = u, ep_search = []\<rparr>),
      deleteReleaseAsset = (\<lambda>p s. (deleted, s)),
      fetch = (\<lambda>r s. (fetched, s))\<rparr>"

definition ex_asset :: ReleaseAsset where
  "ex_asset =
     \<lparr>asset_name = ''app.zip'', asset_mime = ''application/zip'',
      asset_size = 3, asset_data = ''PK!''\<rparr>"

definition ex_url :: string where
  "ex_url = ''https://uploads.example/7/assets''"

definition ex_request :: request where
  "ex_request =
     \<lparr>rq_endpoint = \<lparr>ep_href = ex_url, ep_search = [(''name'', ''app.zip'')]\<rparr>,
      rq_headers =
        [(''content-length'', ''3''),
         (''content-type'', ''application/zip''),
         (''authorization'', ''token secret'')],
      rq_method = ''POST'',
      rq_body = ''PK!''\<rparr>"

section \<open>Unfolding the model\<close>

lemmas ex_defs = ex_util_def ex_config_def ex_release_def other_release_def updated_def
  stub_releaser_def not_found_def already_exists_def forbidden_def socket_hang_up_def ex_owner_def
  ex_repo_def ex_tag_params_def ex_list_params_def

lemmas release_defs = release_attempt_def owner_repo_def nth_opt_def resolve_tag_def or_str_def
  draft_scan_def truthy_bool_def truthy_str_def lookup_def call_def create_path_def retry_log_def
  create_release_params_def update_path_def update_tag_ref_def update_release_params_def
  trace_def Let_def

lemma call_eq: "call ev f st = (fst (f (fst st)), (snd (f (fst st)), snd st @ [ev]))"
  by (simp add: call_def split: prod.splits)

lemma release_pos:
  "0 < maxRetries \<Longrightarrow>
   release u releaser config maxRetries st =
     (case release_attempt u releaser config st of
        Done result \<Rightarrow> result
      | Retry st1 \<Rightarrow> release u releaser config (maxRetries - 1) st1)"
  by (subst release.simps) simp

lemma release_zero:
  "maxRetries \<le> 0 \<Longrightarrow>
   release u releaser config maxRetries st = (Inl (Error ''Too many retries.''), st)"
  by (subst release.simps) simp

lemma ex_owner_repo: "owner_repo ex_config = (ex_owner, ex_repo)"
  by (simp add: release_defs ex_defs)

lemma ex_resolve_tag: "resolve_tag ex_util ex_config = ''v1.0''"
  by (simp add: release_defs ex_defs)

section \<open>What each phase of a run records\<close>

lemma draft_scan_trace:
  "draft_scan releaser config owner repo tag st = (r, st1) \<Longrightarrow>
   snd st1 = snd st @ (if input_draft config = Some True
                       then [AllReleases \<lparr>lp_owner = owner, lp_repo = repo\<rparr>] else [])"
  by (auto simp: draft_scan_def call_eq truthy_bool_def Let_def split: if_splits option.splits)

lemma lookup_trace:
  "lookup releaser owner repo tag st = (r, st1) \<Longrightarrow>
   snd st1 = snd st @ [GetReleaseByTag \<lparr>tp_owner = owner, tp_repo = repo, tp_tag = tag\<rparr>]"
  by (auto simp: lookup_def call_eq Let_def split: if_splits sum.splits prod.splits)

lemma create_path_trace:
  "(create_path u releaser config owner repo tag st = Done (r, st') \<longrightarrow>
      snd st' = snd st @ [CreateRelease (create_release_params u config owner repo tag)]) \<and>
   (create_path u releaser config owner repo tag st = Retry st' \<longrightarrow>
      snd st' = snd st @ [CreateRelease (create_release_params u config owner repo tag)])"
  by (auto simp: create_path_def call_eq Let_def split: sum.splits)

lemma update_tag_ref_trace:
  "update_tag_ref releaser config owner repo existing st = (r, st') \<Longrightarrow>
   \<exists>rest. snd st' = snd st @ rest"
  by (auto simp: update_tag_ref_def call_eq Let_def split: sum.splits if_splits)

lemma update_path_trace:
  "update_path u releaser config owner repo tag existing st = (r, st') \<Longrightarrow>
   \<exists>rest. snd st' = snd st @ rest"
  by (auto simp: update_path_def call_eq Let_def split: sum.splits prod.splits
           dest!: update_tag_ref_trace)

lemma release_update:
  assumes "0 < maxRetries"
    and "owner_repo config = (owner, repo)"
    and "draft_scan releaser config owner repo (resolve_tag u config) st = (Inr None, st1)"
    and "lookup releaser owner repo (resolve_tag u config) st1 = (Inr (Some existing), st2)"
  shows "release u releaser config maxRetries st =
         update_path u releaser config owner repo (resolve_tag u config) existing st2"
  using assms by (simp add: release_pos release_attempt_def)

lemma release_create:
  assumes "0 < maxRetries"
    and "owner_repo config = (owner, repo)"
    and "draft_scan releaser config owner repo (resolve_tag u config) st = (Inr None, st1)"
    and "lookup releaser owner repo (resolve_tag u config) st1 = (Inr None, st2)"
  shows "release u releaser config maxRetries st =
         (case create_path u releaser config owner repo (resolve_tag u config) st2 of
            Done result \<Rightarrow> result
          | Retry st3 \<Rightarrow> release u releaser config (maxRetries - 1) st3)"
  using assms by (simp add: release_pos release_attempt_def)

lemma release_attempt_trace:
  "(release_attempt u releaser config st = Done (r, st') \<longrightarrow> (\<exists>rest. snd st' = snd st @ rest)) \<and>
   (release_attempt u releaser config st = Retry st' \<longrightarrow> (\<exists>rest. snd st' = snd st @ rest))"
proof -
  obtain owner repo where o: "owner_repo config = (owner, repo)" by (cases "owner_repo config")
  obtain d st1 where d: "draft_scan releaser config owner repo (resolve_tag u config) st = (d, st1)"
    by (cases "draft_scan releaser config owner repo (resolve_tag u config) st")
  from draft_scan_trace [OF d] obtain r1 where r1: "snd st1 = snd st @ r1" by blast
  obtain l st2 where l: "lookup releaser owner repo (resolve_tag u config) st1 = (l, st2)"
    by (cases "lookup releaser owner repo (resolve_tag u config) st1")
  from lookup_trace [OF l] r1 obtain r2 where r2: "snd st2 = snd st @ r2" by simp
  show ?thesis
  proof (cases d)
    case (Inl e)
    then show ?thesis using o d r1 by (auto simp: release_attempt_def)
  next
    case (Inr found)
    show ?thesis
    proof (cases found)
      case (Some rel)
      then show ?thesis using o d r1 Inr by (auto simp: release_attempt_def)
    next
      case None
      show ?thesis
      proof (cases l)
        case (Inl e)
        then show ?thesis using o d l r2 None \<open>d = Inr found\<close> by (auto simp: release_attempt_def)
      next
        case (Inr ex)
        show ?thesis
        proof (cases ex)
          case None
          have "release_attempt u releaser config st =
                create_path u releaser config owner repo (resolve_tag u config) st2"
            using o d l None \<open>found = None\<close> \<open>d = Inr found\<close> Inr by (simp add: release_attempt_def)
          then show ?thesis
            using create_path_trace [of u releaser config owner repo "resolve_tag u config" st2 r st'] r2
            by auto
        next
          case (Some existing)
          have "release_attempt u releaser config st =
                Done (update_path u releaser config owner repo (resolve_tag u config) existing st2)"
            using o d l Some \<open>found = None\<close> \<open>d = Inr found\<close> Inr by (simp add: release_attempt_def)
          then show ?thesis
            using update_path_trace [of u releaser config owner repo "resolve_tag u config" existing st2 r st'] r2
            by auto
        qed
      qed
    qed
  qed
qed

lemma release_trace_extends:
  "\<exists>rest. trace (release u releaser config maxRetries st) = snd st @ rest"
proof (induction u releaser config maxRetries st rule: release.induct)
  case (1 u releaser config maxRetries st)
  show ?case
  proof (cases "maxRetries \<le> 0")
    case True
    then show ?thesis by (simp add: release_zero trace_def)
  next
    case False
    then have pos: "0 < maxRetries" by simp
    show ?thesis
    proof (cases "release_attempt u releaser config st")
      case (Done result)
      obtain r st' where res: "result = (r, st')" by (cases result)
      from release_attempt_trace [of u releaser config st r st'] Done res
      obtain rest where "snd st' = snd st @ rest" by auto
      then show ?thesis using Done res pos by (simp add: release_pos trace_def)
    next
      case (Retry st1)
      from release_attempt_trace [of u releaser config st _ st1] Retry
      obtain rest where a: "snd st1 = snd st @ rest" by auto
      from "1.IH" [OF False Retry]
      obtain rest' where "trace (release u releaser config (maxRetries - 1) st1) = snd st1 @ rest'"
        by auto
      then show ?thesis using Retry pos a by (simp add: release_pos)
    qed
  qed
qed

section \<open>Creation failures and the retry\<close>

text \<open>
  C1: when the lookup reports 404 and the creation fails, \<open>release\<close> called with
  \<open>maxRetries = 3\<close> should make three creation attempts and fail with
  "Too many retries.". Here the creation rejects with an error that has no
  \<open>response\<close>: the run makes one creation attempt and fails with the TypeError
  that the log statement of the \<open>catch\<close> block (line 302) throws.
\<close>

theorem create_error_without_response_aborts:
  "release ex_util (stub_releaser (Inl not_found) (Inl socket_hang_up) []) ex_config 3 ((), []) =
     (Inl TypeError,
      ((), [GetReleaseByTag ex_tag_params,
            CreateRelease (create_release_params ex_util ex_config ex_owner ex_repo ''v1.0'')])) \<and>
   length (filter is_create
     (trace (release ex_util (stub_releaser (Inl not_found) (Inl socket_hang_up) []) ex_config 3
               ((), [])))) = 1"
  by (simp add: release_pos release_defs ex_defs)

text \<open>
  C2: a creation failure should lead to the recursive call with \<open>maxRetries - 1\<close>
  whatever the error is. When the error has no \<open>response\<close>, there is no recursive call
  for any positive \<open>maxRetries\<close>: the run ends after this one creation attempt with
  the TypeError of line 302.
\<close>

theorem create_error_without_response_not_retried:
  assumes "0 < maxRetries"
    and "owner_repo config = (owner, repo)"
    and "draft_scan releaser config owner repo (resolve_tag u config) st = (Inr None, st1)"
    and "lookup releaser owner repo (resolve_tag u config) st1 = (Inr None, st2)"
    and "params = create_release_params u config owner repo (resolve_tag u config)"
    and "createRelease releaser params (fst st2) = (Inl error, s3)"
    and "response error = None"
  shows "release u releaser config maxRetries st =
         (Inl TypeError, (s3, snd st2 @ [CreateRelease params]))"
  using assms by (simp add: release_create create_path_def call_eq retry_log_def)

theorem create_error_without_response_not_retried_witness:
  "(0::int) < 2 \<and>
   owner_repo ex_config = (ex_owner, ex_repo) \<and>
   draft_scan (stub_releaser (Inl not_found) (Inl socket_hang_up) []) ex_config
     ex_owner ex_repo (resolve_tag ex_util ex_config) ((), []) = (Inr None, ((), [])) \<and>
   lookup (stub_releaser (Inl not_found) (Inl socket_hang_up) [])
     ex_owner ex_repo (resolve_tag ex_util ex_config) ((), []) =
     (Inr None, ((), [GetReleaseByTag ex_tag_params])) \<and>
   createRelease (stub_releaser (Inl not_found) (Inl socket_hang_up) [])
     (create_release_params ex_util ex_config ex_owner ex_repo ''v1.0'') () =
     (Inl socket_hang_up, ()) \<and>
   response socket_hang_up = None \<and>
   release ex_util (stub_releaser (Inl not_found) (Inl socket_hang_up) []) ex_config 2 ((), []) =
     (Inl TypeError,
      ((), [GetReleaseByTag ex_tag_params,
            CreateRelease (create_release_params ex_util ex_config ex_owner ex_repo ''v1.0'')]))"
proof -
  let ?r = "stub_releaser (Inl not_found) (Inl socket_hang_up) []"
  have h1: "(0::int) < 2" by simp
  have h3: "draft_scan ?r ex_config ex_owner ex_repo (resolve_tag ex_util ex_config) ((), []) =
              (Inr None, ((), []))"
    by (simp add: draft_scan_def truthy_bool_def ex_config_def)
  have h4: "lookup ?r ex_owner ex_repo (resolve_tag ex_util ex_config) ((), []) =
              (Inr None, ((), [GetReleaseByTag ex_tag_params]))"
    by (simp add: lookup_def call_def Let_def stub_releaser_def not_found_def ex_tag_params_def
          ex_resolve_tag)
  have h5: "createRelease ?r
              (create_release_params ex_util ex_config ex_owner ex_repo
                 (resolve_tag ex_util ex_config))
              (fst ((), [GetReleaseByTag ex_tag_params])) = (Inl socket_hang_up, ())"
    by (simp add: stub_releaser_def)
  have h6: "response socket_hang_up = None" by (simp add: socket_hang_up_def)
  from create_error_without_response_not_retried [OF h1 ex_owner_repo h3 h4 refl h5 h6]
    h1 ex_owner_repo h3 h4 h5 h6
  show ?thesis by (simp add: ex_resolve_tag)
qed

text \<open>
  What the retry does for creation errors that carry \<open>response.data\<close>, as the HTTP
  failures of the service do: each failed creation leads to the recursive call with
  \<open>maxRetries - 1\<close>, and a creation that always fails so is attempted exactly
  \<open>maxRetries\<close> times before the run fails with "Too many retries.".
\<close>

lemma release_retry:
  assumes "0 < maxRetries"
    and "owner_repo config = (owner, repo)"
    and "draft_scan releaser config owner repo (resolve_tag u config) st = (Inr None, st1)"
    and "lookup releaser owner repo (resolve_tag u config) st1 = (Inr None, st2)"
    and "params = create_release_params u config owner repo (resolve_tag u config)"
    and "createRelease releaser params (fst st2) = (Inl error, s3)"
    and "response error = Some r"
    and "response_data r = Some d"
  shows "release u releaser config maxRetries st =
         release u releaser config (maxRetries - 1) (s3, snd st2 @ [CreateRelease params])"
  using assms by (simp add: release_create create_path_def call_eq retry_log_def)

lemma release_attempt_retries:
  assumes nf: "\<And>p s. \<exists>e s'. getReleaseByTag releaser p s = (Inl e, s') \<and> status e = Some 404"
    and cf: "\<And>p s. \<exists>e s' r d. createRelease releaser p s = (Inl e, s') \<and>
                        response e = Some r \<and> response_data r = Some d"
    and nd: "input_draft config \<noteq> Some True \<or>
             (\<forall>p s. scan_pages (resolve_tag u config) (fst (allReleases releaser p s)) = Inr None)"
  shows "\<exists>st'. release_attempt u releaser config st = Retry st' \<and>
               length (filter is_create (snd st')) = Suc (length (filter is_create (snd st)))"
proof -
  obtain owner repo where o: "owner_repo config = (owner, repo)" by (cases "owner_repo config")
  let ?tag = "resolve_tag u config"
  have "\<exists>st1. draft_scan releaser config owner repo ?tag st = (Inr None, st1)"
  proof (cases "input_draft config = Some True")
    case True
    with nd have "\<And>p s. scan_pages ?tag (fst (allReleases releaser p s)) = Inr None"
      by simp
    then show ?thesis
      using True by (simp add: draft_scan_def truthy_bool_def call_eq Let_def)
  next
    case False
    then show ?thesis
      by (auto simp: draft_scan_def truthy_bool_def split: option.splits)
  qed
  then obtain st1 where ds: "draft_scan releaser config owner repo ?tag st = (Inr None, st1)"
    by blast
  have c1: "filter is_create (snd st1) = filter is_create (snd st)"
    using draft_scan_trace [OF ds] by simp
  let ?tp = "\<lparr>tp_owner = owner, tp_repo = repo, tp_tag = ?tag\<rparr>"
  obtain e s2 where g: "getReleaseByTag releaser ?tp (fst st1) = (Inl e, s2)" "status e = Some 404"
    using nf by blast
  have lk: "lookup releaser owner repo ?tag st1 = (Inr None, (s2, snd st1 @ [GetReleaseByTag ?tp]))"
    using g by (simp add: lookup_def call_eq Let_def)
  let ?cp = "create_release_params u config owner repo ?tag"
  obtain err s3 r d where c: "createRelease releaser ?cp s2 = (Inl err, s3)"
    "response err = Some r" "response_data r = Some d"
    using cf by blast
  have "release_attempt u releaser config st =
          Retry (s3, snd st1 @ [GetReleaseByTag ?tp, CreateRelease ?cp])"
    using o ds lk c
    by (simp add: release_attempt_def create_path_def call_eq retry_log_def Let_def)
  then show ?thesis using c1 by simp
qed

lemma release_retries_exhausted:
  assumes nf: "\<And>p s. \<exists>e s'. getReleaseByTag releaser p s = (Inl e, s') \<and> status e = Some 404"
    and cf: "\<And>p s. \<exists>e s' r d. createRelease releaser p s = (Inl e, s') \<and>
                        response e = Some r \<and> response_data r = Some d"
    and nd: "input_draft config \<noteq> Some True \<or>
             (\<forall>p s. scan_pages (resolve_tag u config) (fst (allReleases releaser p s)) = Inr None)"
    and "0 \<le> maxRetries"
  shows "fst (release u releaser config maxRetries st) = Inl (Error ''Too many retries.'') \<and>
         length (filter is_create (trace (release u releaser config maxRetries st))) =
           length (filter is_create (snd st)) + nat maxRetries"
  using assms(4)
proof (induction "nat maxRetries" arbitrary: maxRetries st)
  case 0
  then have "maxRetries \<le> 0" by simp
  then show ?case by (simp add: release_zero trace_def)
next
  case (Suc k)
  then have pos: "0 < maxRetries" and k: "k = nat (maxRetries - 1)" and nn: "0 \<le> maxRetries - 1"
    by linarith+
  obtain st' where a: "release_attempt u releaser config st = Retry st'"
    "length (filter is_create (snd st')) = Suc (length (filter is_create (snd st)))"
    using release_attempt_retries [OF nf cf nd] by blast
  have "release u releaser config maxRetries st = release u releaser config (maxRetries - 1) st'"
    using pos a(1) by (simp add: release_pos)
  moreover have "Suc (nat (maxRetries - 1)) = nat maxRetries" using pos by linarith
  ultimately show ?case using Suc.hyps(1) [OF k nn, of st'] a(2) by simp
qed

lemma release_retries_exhausted_example:
  "release ex_util (stub_releaser (Inl not_found) (Inl already_exists) []) ex_config 2 ((), []) =
     (Inl (Error ''Too many retries.''),
      ((), [GetReleaseByTag ex_tag_params,
            CreateRelease (create_release_params ex_util ex_config ex_owner ex_repo ''v1.0''),
            GetReleaseByTag ex_tag_params,
            CreateRelease (create_release_params ex_util ex_config ex_owner ex_repo ''v1.0'')]))"
  by (simp add: release_pos release_zero release_defs ex_defs)

section \<open>The update path\<close>

text \<open>
  A run reaches the update path when the scan for a draft (if there is one) finds no
  release and the lookup by tag finds \<open>existing\<close>. The only \<open>updateRelease\<close> call of
  such a run has the parameters \<open>update_release_params\<close> computes.
\<close>

lemma update_event_params:
  assumes "0 < maxRetries"
    and "owner_repo config = (owner, repo)"
    and "draft_scan releaser config owner repo (resolve_tag u config) (s, []) = (Inr None, st1)"
    and "lookup releaser owner repo (resolve_tag u config) st1 = (Inr (Some existing), st2)"
    and "UpdateRelease params \<in> set (trace (release u releaser config maxRetries (s, [])))"
  shows "params = update_release_params u config owner repo (resolve_tag u config) existing"
proof -
  have t1: "snd st1 = (if input_draft config = Some True
                       then [AllReleases \<lparr>lp_owner = owner, lp_repo = repo\<rparr>] else [])"
    using draft_scan_trace [OF assms(3)] by simp
  have t2: "snd st2 = snd st1 @ [GetReleaseByTag
              \<lparr>tp_owner = owner, tp_repo = repo, tp_tag = resolve_tag u config\<rparr>]"
    using lookup_trace [OF assms(4)] .
  have "UpdateRelease params \<in>
          set (trace (update_path u releaser config owner repo (resolve_tag u config) existing st2))"
    using assms(5) release_update [OF assms(1-4)] by simp
  then show ?thesis
    using t1 t2
    by (auto simp: update_path_def update_tag_ref_def call_eq trace_def Let_def
             split: if_splits sum.splits prod.splits)
qed

lemma ex_flags:
  "input_draft ex_config = None"
  "input_prerelease ex_config = None"
  "input_update_tag ex_config = None"
  "input_append_body ex_config = Some True"
  "github_sha ex_config = ''abc123''"
  by (simp_all add: ex_config_def)

lemma ex_no_draft_scan:
  "draft_scan releaser ex_config owner repo tag st = (Inr None, st)"
  by (simp add: draft_scan_def truthy_bool_def ex_config_def)

lemma ex_lookup_found:
  "lookup (stub_releaser (Inr ex_release) created pages) ex_owner ex_repo ''v1.0'' ((), tr) =
     (Inr (Some ex_release), ((), tr @ [GetReleaseByTag ex_tag_params]))"
  by (simp add: lookup_def call_def Let_def stub_releaser_def ex_tag_params_def)

text \<open>
  C3: on the update path, the body sent to \<open>updateRelease\<close> is the existing body, a
  newline and the workflow body when the append-body flag is set and both bodies are
  non-empty; in every other case it is the workflow body when that is non-empty, and
  the existing body otherwise (an absent body counts as the empty string).
\<close>

theorem update_body_merge:
  assumes "0 < maxRetries"
    and "owner_repo config = (owner, repo)"
    and "draft_scan releaser config owner repo (resolve_tag u config) (s, []) = (Inr None, st1)"
    and "lookup releaser owner repo (resolve_tag u config) st1 = (Inr (Some existing), st2)"
    and "UpdateRelease params \<in> set (trace (release u releaser config maxRetries (s, [])))"
    and "workflowBody = (case releaseBody u config of None \<Rightarrow> [] | Some b \<Rightarrow> b)"
    and "existingBody = (case rel_body existing of None \<Rightarrow> [] | Some b \<Rightarrow> b)"
  shows "up_body params =
         Some (if input_append_body config = Some True \<and> workflowBody \<noteq> [] \<and> existingBody \<noteq> []
               then existingBody @ [CHR 0x0A] @ workflowBody
               else if workflowBody \<noteq> [] then workflowBody
               else existingBody)"
proof -
  have "params = update_release_params u config owner repo (resolve_tag u config) existing"
    using update_event_params [OF assms(1-5)] .
  then show ?thesis
    using assms(6,7)
    by (auto simp: update_release_params_def or_str_def truthy_bool_def Let_def
             split: option.splits)
qed

theorem update_body_merge_witness:
  "(0::int) < 3 \<and>
   owner_repo ex_config = (ex_owner, ex_repo) \<and>
   draft_scan (stub_releaser (Inr ex_release) (Inl already_exists) []) ex_config ex_owner ex_repo
     (resolve_tag ex_util ex_config) ((), []) = (Inr None, ((), [])) \<and>
   lookup (stub_releaser (Inr ex_release) (Inl already_exists) []) ex_owner ex_repo
     (resolve_tag ex_util ex_config) ((), []) =
     (Inr (Some ex_release), ((), [GetReleaseByTag ex_tag_params])) \<and>
   trace (release ex_util (stub_releaser (Inr ex_release) (Inl already_exists) []) ex_config 3
            ((), [])) =
     [GetReleaseByTag ex_tag_params,
      UpdateRelease (update_release_params ex_util ex_config ex_owner ex_repo ''v1.0'' ex_release)] \<and>
   input_append_body ex_config = Some True \<and>
   releaseBody ex_util ex_config = Some ''B'' \<and>
   rel_body ex_release = Some ''A'' \<and>
   up_body (update_release_params ex_util ex_config ex_owner ex_repo ''v1.0'' ex_release) =
     Some (''A'' @ [CHR 0x0A] @ ''B'')"
proof -
  let ?r = "stub_releaser (Inr ex_release) (Inl already_exists) []"
  let ?p = "update_release_params ex_util ex_config ex_owner ex_repo ''v1.0'' ex_release"
  have h1: "(0::int) < 3" by simp
  have h3: "draft_scan ?r ex_config ex_owner ex_repo (resolve_tag ex_util ex_config) ((), []) =
              (Inr None, ((), []))"
    by (rule ex_no_draft_scan)
  have h4: "lookup ?r ex_owner ex_repo (resolve_tag ex_util ex_config) ((), []) =
              (Inr (Some ex_release), ((), [GetReleaseByTag ex_tag_params]))"
    using ex_lookup_found [of _ _ "[]"] by (simp add: ex_resolve_tag)
  have tr: "trace (release ex_util ?r ex_config 3 ((), [])) =
              [GetReleaseByTag ex_tag_params, UpdateRelease ?p]"
    unfolding release_update [OF h1 ex_owner_repo h3 h4]
    by (simp add: update_path_def update_tag_ref_def truthy_bool_def call_def trace_def Let_def
          ex_resolve_tag ex_flags stub_releaser_def)
  have h5: "UpdateRelease ?p \<in> set (trace (release ex_util ?r ex_config 3 ((), [])))"
    by (simp add: tr)
  have b1: "releaseBody ex_util ex_config = Some ''B''" by (simp add: ex_util_def ex_config_def)
  have b2: "rel_body ex_release = Some ''A''" by (simp add: ex_release_def)
  have b3: "input_append_body ex_config = Some True" by (simp add: ex_config_def)
  from update_body_merge [OF h1 ex_owner_repo h3 h4 h5 refl refl]
  have "up_body ?p = Some (''A'' @ [CHR 0x0A] @ ''B'')"
    by (simp add: b1 b2 b3)
  with h1 ex_owner_repo h3 h4 tr b1 b2 b3 show ?thesis by simp
qed

lemma owner_repo_update [simp]:
  "owner_repo (config\<lparr>input_prerelease := p\<rparr>) = owner_repo config"
  "owner_repo (config\<lparr>input_update_tag := t\<rparr>) = owner_repo config"
  "owner_repo (config\<lparr>input_draft := d\<rparr>) = owner_repo config"
  "owner_repo (config\<lparr>input_overwrite_files := f\<rparr>) = owner_repo config"
  by (simp_all add: owner_repo_def)

lemma resolve_tag_update [simp]:
  "resolve_tag u (config\<lparr>input_prerelease := p\<rparr>) = resolve_tag u config"
  "resolve_tag u (config\<lparr>input_update_tag := t\<rparr>) = resolve_tag u config"
  "resolve_tag u (config\<lparr>input_draft := d\<rparr>) = resolve_tag u config"
  by (simp_all add: resolve_tag_def)

text \<open>
  C4: on the update path, \<open>updateRelease\<close> receives the configured draft flag when
  it is defined (\<open>true\<close> or \<open>false\<close>) and the existing release's flag when it is
  undefined, and likewise for the prerelease flag: neither defaults to \<open>false\<close>.
\<close>

theorem update_draft_prerelease_tristate:
  assumes "0 < maxRetries"
    and "owner_repo config = (owner, repo)"
    and "draft_scan releaser config owner repo (resolve_tag u config) (s, []) = (Inr None, st1)"
    and "lookup releaser owner repo (resolve_tag u config) st1 = (Inr (Some existing), st2)"
    and "UpdateRelease params \<in> set (trace (release u releaser config maxRetries (s, [])))"
  shows "(input_draft config \<noteq> None \<longrightarrow> up_draft params = input_draft config) \<and>
         (input_draft config = None \<longrightarrow> up_draft params = Some (rel_draft existing)) \<and>
         (input_prerelease config \<noteq> None \<longrightarrow> up_prerelease params = input_prerelease config) \<and>
         (input_prerelease config = None \<longrightarrow>
            up_prerelease params = Some (rel_prerelease existing))"
proof -
  have "params = update_release_params u config owner repo (resolve_tag u config) existing"
    using update_event_params [OF assms(1-5)] .
  then show ?thesis
    by (auto simp: update_release_params_def Let_def)
qed

theorem update_draft_prerelease_tristate_witness:
  "(0::int) < 3 \<and>
   owner_repo (ex_config\<lparr>input_prerelease := Some False\<rparr>) = (ex_owner, ex_repo) \<and>
   draft_scan (stub_releaser (Inr ex_release) (Inl already_exists) [])
     (ex_config\<lparr>input_prerelease := Some False\<rparr>) ex_owner ex_repo
     (resolve_tag ex_util (ex_config\<lparr>input_prerelease := Some False\<rparr>)) ((), []) =
     (Inr None, ((), [])) \<and>
   lookup (stub_releaser (Inr ex_release) (Inl already_exists) []) ex_owner ex_repo
     (resolve_tag ex_util (ex_config\<lparr>input_prerelease := Some False\<rparr>)) ((), []) =
     (Inr (Some ex_release), ((), [GetReleaseByTag ex_tag_params])) \<and>
   trace (release ex_util (stub_releaser (Inr ex_release) (Inl already_exists) [])
            (ex_config\<lparr>input_prerelease := Some False\<rparr>) 3 ((), [])) =
     [GetReleaseByTag ex_tag_params,
      UpdateRelease (update_release_params ex_util (ex_config\<lparr>input_prerelease := Some False\<rparr>)
                       ex_owner ex_repo ''v1.0'' ex_release)] \<and>
   input_draft (ex_config\<lparr>input_prerelease := Some False\<rparr>) = None \<and>
   rel_draft ex_release = True \<and>
   up_draft (update_release_params ex_util (ex_config\<lparr>input_prerelease := Some False\<rparr>)
               ex_owner ex_repo ''v1.0'' ex_release) = Some True \<and>
   input_prerelease (ex_config\<lparr>input_prerelease := Some False\<rparr>) = Some False \<and>
   rel_prerelease ex_release = True \<and>
   up_prerelease (update_release_params ex_util (ex_config\<lparr>input_prerelease := Some False\<rparr>)
                    ex_owner ex_repo ''v1.0'' ex_release) = Some False"
proof -
  let ?r = "stub_releaser (Inr ex_release) (Inl already_exists) []"
  let ?c = "ex_config\<lparr>input_prerelease := Some False\<rparr>"
  let ?p = "update_release_params ex_util ?c ex_owner ex_repo ''v1.0'' ex_release"
  have h1: "(0::int) < 3" by simp
  have h2: "owner_repo ?c = (ex_owner, ex_repo)" by (simp add: ex_owner_repo)
  have h3: "draft_scan ?r ?c ex_owner ex_repo (resolve_tag ex_util ?c) ((), []) =
              (Inr None, ((), []))"
    by (simp add: draft_scan_def truthy_bool_def ex_flags)
  have h4: "lookup ?r ex_owner ex_repo (resolve_tag ex_util ?c) ((), []) =
              (Inr (Some ex_release), ((), [GetReleaseByTag ex_tag_params]))"
    using ex_lookup_found [of _ _ "[]"] by (simp add: ex_resolve_tag)
  have tr: "trace (release ex_util ?r ?c 3 ((), [])) =
              [GetReleaseByTag ex_tag_params, UpdateRelease ?p]"
    unfolding release_update [OF h1 h2 h3 h4]
    by (simp add: update_path_def update_tag_ref_def truthy_bool_def call_def trace_def Let_def
          ex_resolve_tag ex_flags stub_releaser_def)
  have h5: "UpdateRelease ?p \<in> set (trace (release ex_util ?r ?c 3 ((), [])))"
    by (simp add: tr)
  have f: "input_draft ?c = None" "input_prerelease ?c = Some False"
    "rel_draft ex_release = True" "rel_prerelease ex_release = True"
    by (simp_all add: ex_flags ex_release_def)
  from update_draft_prerelease_tristate [OF h1 h2 h3 h4 h5]
  have "up_draft ?p = Some True \<and> up_prerelease ?p = Some False"
    by (simp add: f)
  with h1 h2 h3 h4 tr f show ?thesis by simp
qed

text \<open>
  C7: on the update path with the update-tag flag set, the calls after the lookup
  are \<open>deleteRef\<close> on the existing release's tag, \<open>createRef\<close> pointing that tag at
  the triggering commit, a delay of 2000 ms and then \<open>updateRelease\<close>, in this order
  and with nothing in between; the sequence stops early only where \<open>deleteRef\<close> or
  \<open>createRef\<close> fails. With the flag unset, \<open>updateRelease\<close> follows the lookup
  directly.
\<close>

theorem update_tag_call_order:
  assumes "0 < maxRetries"
    and "owner_repo config = (owner, repo)"
    and "draft_scan releaser config owner repo (resolve_tag u config) (s, []) = (Inr None, st1)"
    and "lookup releaser owner repo (resolve_tag u config) st1 = (Inr (Some existing), st2)"
    and "pre = (if input_draft config = Some True
                then [AllReleases \<lparr>lp_owner = owner, lp_repo = repo\<rparr>] else []) @
               [GetReleaseByTag \<lparr>tp_owner = owner, tp_repo = repo, tp_tag = resolve_tag u config\<rparr>]"
    and "dparams = \<lparr>drf_owner = owner, drf_repo = repo,
                    drf_ref = ''tags/'' @ rel_tag_name existing\<rparr>"
    and "cparams = \<lparr>crf_owner = owner, crf_repo = repo,
                    crf_ref = ''refs/tags/'' @ rel_tag_name existing,
                    crf_sha = github_sha config\<rparr>"
    and "upd = UpdateRelease
                 (update_release_params u config owner repo (resolve_tag u config) existing)"
    and "calls = trace (release u releaser config maxRetries (s, []))"
  shows "(input_update_tag config = Some True \<longrightarrow>
            calls = pre @ [DeleteRef dparams] \<or>
            calls = pre @ [DeleteRef dparams, CreateRef cparams] \<or>
            calls = pre @ [DeleteRef dparams, CreateRef cparams, Sleep 2000, upd]) \<and>
         (input_update_tag config = Some True \<longrightarrow>
            (\<forall>x s3 y s4. deleteRef releaser dparams (fst st2) = (Inr x, s3) \<and>
                         createRef releaser cparams s3 = (Inr y, s4) \<longrightarrow>
               calls = pre @ [DeleteRef dparams, CreateRef cparams, Sleep 2000, upd])) \<and>
         (input_update_tag config \<noteq> Some True \<longrightarrow> calls = pre @ [upd])"
proof -
  have t1: "snd st1 = (if input_draft config = Some True
                       then [AllReleases \<lparr>lp_owner = owner, lp_repo = repo\<rparr>] else [])"
    using draft_scan_trace [OF assms(3)] by simp
  have t2: "snd st2 = pre"
    using lookup_trace [OF assms(4)] t1 assms(5) by simp
  have c: "calls =
        trace (update_path u releaser config owner repo (resolve_tag u config) existing st2)"
    using assms(9) release_update [OF assms(1-4)] by simp
  show ?thesis
    unfolding c using t2 assms(6-8)
    by (auto simp: update_path_def update_tag_ref_def call_eq trace_def Let_def truthy_bool_def
             split: if_splits sum.splits prod.splits option.splits)
qed

theorem update_tag_call_order_witness:
  "(0::int) < 3 \<and>
   owner_repo (ex_config\<lparr>input_update_tag := Some True\<rparr>) = (ex_owner, ex_repo) \<and>
   draft_scan (stub_releaser (Inr ex_release) (Inl already_exists) [])
     (ex_config\<lparr>input_update_tag := Some True\<rparr>) ex_owner ex_repo
     (resolve_tag ex_util (ex_config\<lparr>input_update_tag := Some True\<rparr>)) ((), []) =
     (Inr None, ((), [])) \<and>
   lookup (stub_releaser (Inr ex_release) (Inl already_exists) []) ex_owner ex_repo
     (resolve_tag ex_util (ex_config\<lparr>input_update_tag := Some True\<rparr>)) ((), []) =
     (Inr (Some ex_release), ((), [GetReleaseByTag ex_tag_params])) \<and>
   input_update_tag (ex_config\<lparr>input_update_tag := Some True\<rparr>) = Some True \<and>
   trace (release ex_util (stub_releaser (Inr ex_release) (Inl already_exists) [])
            (ex_config\<lparr>input_update_tag := Some True\<rparr>) 3 ((), [])) =
     [GetReleaseByTag ex_tag_params,
      DeleteRef \<lparr>drf_owner = ex_owner, drf_repo = ex_repo, drf_ref = ''tags/v1.0''\<rparr>,
      CreateRef \<lparr>crf_owner = ex_owner, crf_repo = ex_repo, crf_ref = ''refs/tags/v1.0'',
                 crf_sha = ''abc123''\<rparr>,
      Sleep 2000,
      UpdateRelease (update_release_params ex_util (ex_config\<lparr>input_update_tag := Some True\<rparr>)
                       ex_owner ex_repo ''v1.0'' ex_release)] \<and>
   input_update_tag ex_config = None \<and>
   trace (release ex_util (stub_releaser (Inr ex_release) (Inl already_exists) [])
            ex_config 3 ((), [])) =
     [GetReleaseByTag ex_tag_params,
      UpdateRelease (update_release_params ex_util ex_config ex_owner ex_repo ''v1.0'' ex_release)]"
proof -
  let ?r = "stub_releaser (Inr ex_release) (Inl already_exists) []"
  let ?c = "ex_config\<lparr>input_update_tag := Some True\<rparr>"
  have h1: "(0::int) < 3" by simp
  have h2: "owner_repo ?c = (ex_owner, ex_repo)" by (simp add: ex_owner_repo)
  have h3: "draft_scan ?r ?c ex_owner ex_repo (resolve_tag ex_util ?c) ((), []) =
              (Inr None, ((), []))"
    by (simp add: draft_scan_def truthy_bool_def ex_flags)
  have h4: "lookup ?r ex_owner ex_repo (resolve_tag ex_util ?c) ((), []) =
              (Inr (Some ex_release), ((), [GetReleaseByTag ex_tag_params]))"
    using ex_lookup_found [of _ _ "[]"] by (simp add: ex_resolve_tag)
  have h3': "draft_scan ?r ex_config ex_owner ex_repo (resolve_tag ex_util ex_config) ((), []) =
              (Inr None, ((), []))"
    by (rule ex_no_draft_scan)
  have h4': "lookup ?r ex_owner ex_repo (resolve_tag ex_util ex_config) ((), []) =
              (Inr (Some ex_release), ((), [GetReleaseByTag ex_tag_params]))"
    using ex_lookup_found [of _ _ "[]"] by (simp add: ex_resolve_tag)
  have f: "input_update_tag ?c = Some True" "input_update_tag ex_config = None"
    by (simp_all add: ex_flags)
  from update_tag_call_order [OF h1 h2 h3 h4 refl refl refl refl refl]
  have set: "trace (release ex_util ?r ?c 3 ((), [])) =
     [GetReleaseByTag ex_tag_params,
      DeleteRef \<lparr>drf_owner = ex_owner, drf_repo = ex_repo, drf_ref = ''tags/v1.0''\<rparr>,
      CreateRef \<lparr>crf_owner = ex_owner, crf_repo = ex_repo, crf_ref = ''refs/tags/v1.0'',
                 crf_sha = ''abc123''\<rparr>,
      Sleep 2000,
      UpdateRelease (update_release_params ex_util ?c ex_owner ex_repo ''v1.0'' ex_release)]"
    by (simp add: f ex_flags ex_resolve_tag ex_tag_params_def stub_releaser_def ex_release_def)
  from update_tag_call_order [OF h1 ex_owner_repo h3' h4' refl refl refl refl refl]
  have unset: "trace (release ex_util ?r ex_config 3 ((), [])) =
     [GetReleaseByTag ex_tag_params,
      UpdateRelease (update_release_params ex_util ex_config ex_owner ex_repo ''v1.0'' ex_release)]"
    by (simp add: f ex_flags ex_resolve_tag ex_tag_params_def)
  from h1 h2 h3 h4 f set unset show ?thesis by simp
qed

section \<open>The lookup by tag\<close>

lemma lookup_404_then_create:
  assumes "0 < maxRetries"
    and "owner_repo config = (owner, repo)"
    and "tag = resolve_tag u config"
    and "draft_scan releaser config owner repo tag st = (Inr None, st1)"
    and "tparams = \<lparr>tp_owner = owner, tp_repo = repo, tp_tag = tag\<rparr>"
    and "getReleaseByTag releaser tparams (fst st1) = (Inl e, s2)"
    and "status e = Some 404"
    and "cparams = create_release_params u config owner repo tag"
    and "result = release u releaser config maxRetries st"
  shows "\<exists>rest. trace result =
                  snd st1 @ [GetReleaseByTag tparams, CreateRelease cparams] @ rest"
    and "\<forall>r s3. createRelease releaser cparams s2 = (Inr r, s3) \<longrightarrow>
           result = (Inr r, (s3, snd st1 @ [GetReleaseByTag tparams, CreateRelease cparams]))"
proof -
  have lk: "lookup releaser owner repo (resolve_tag u config) st1 =
              (Inr None, (s2, snd st1 @ [GetReleaseByTag tparams]))"
    using assms(3,5,6,7) by (simp add: lookup_def call_eq Let_def)
  have rc: "result =
      (case create_path u releaser config owner repo (resolve_tag u config)
              (s2, snd st1 @ [GetReleaseByTag tparams]) of
         Done res \<Rightarrow> res
       | Retry st3 \<Rightarrow> release u releaser config (maxRetries - 1) st3)"
    using release_create [OF assms(1,2) assms(4) [unfolded assms(3)] lk] assms(9) by simp
  show "\<exists>rest. trace result = snd st1 @ [GetReleaseByTag tparams, CreateRelease cparams] @ rest"
  proof (cases "createRelease releaser cparams s2")
    case (Pair out s3)
    show ?thesis
    proof (cases out)
      case (Inr r)
      then show ?thesis using Pair rc assms(3,8)
        by (simp add: create_path_def call_eq Let_def trace_def)
    next
      case (Inl err)
      show ?thesis
      proof (cases "retry_log err")
        case (Inl e')
        then show ?thesis using Pair \<open>out = Inl err\<close> rc assms(3,8)
          by (simp add: create_path_def call_eq Let_def trace_def)
      next
        case (Inr x)
        let ?st3 = "(s3, snd st1 @ [GetReleaseByTag tparams, CreateRelease cparams])"
        have "result = release u releaser config (maxRetries - 1) ?st3"
          using Pair \<open>out = Inl err\<close> Inr rc assms(3,8)
          by (simp add: create_path_def call_eq Let_def)
        moreover obtain rest where
          "trace (release u releaser config (maxRetries - 1) ?st3) = snd ?st3 @ rest"
          using release_trace_extends by blast
        ultimately show ?thesis by simp
      qed
    qed
  qed
  show "\<forall>r s3. createRelease releaser cparams s2 = (Inr r, s3) \<longrightarrow>
          result = (Inr r, (s3, snd st1 @ [GetReleaseByTag tparams, CreateRelease cparams]))"
    using rc assms(3,8) by (simp add: create_path_def call_eq Let_def)
qed

lemma lookup_error_propagates:
  assumes "0 < maxRetries"
    and "owner_repo config = (owner, repo)"
    and "tag = resolve_tag u config"
    and "draft_scan releaser config owner repo tag st = (Inr None, st1)"
    and "tparams = \<lparr>tp_owner = owner, tp_repo = repo, tp_tag = tag\<rparr>"
    and "getReleaseByTag releaser tparams (fst st1) = (Inl e, s2)"
    and "status e \<noteq> Some 404"
  shows "release u releaser config maxRetries st =
         (Inl e, (s2, snd st1 @ [GetReleaseByTag tparams]))"
proof -
  have lk: "lookup releaser owner repo (resolve_tag u config) st1 =
              (Inl e, (s2, snd st1 @ [GetReleaseByTag tparams]))"
    using assms(3,5,6,7) by (simp add: lookup_def call_eq Let_def)
  show ?thesis
    using assms(1,2) assms(4) [unfolded assms(3)] lk
    by (simp add: release_pos release_attempt_def)
qed

text \<open>
  C6: when \<open>getReleaseByTag\<close> fails with status 404, the run goes on to the
  creation path: the next call is \<open>createRelease\<close>, and a successful creation is the
  result of the run. When it fails with any other status (or none), the run ends
  there with that same error: no further call is made, whatever \<open>maxRetries\<close> is.
\<close>

theorem lookup_404_creates_other_error_propagates:
  assumes "0 < maxRetries"
    and "owner_repo config = (owner, repo)"
    and "tag = resolve_tag u config"
    and "draft_scan releaser config owner repo tag (s, []) = (Inr None, st1)"
    and "tparams = \<lparr>tp_owner = owner, tp_repo = repo, tp_tag = tag\<rparr>"
    and "getReleaseByTag releaser tparams (fst st1) = (Inl e, s2)"
    and "cparams = create_release_params u config owner repo tag"
    and "result = release u releaser config maxRetries (s, [])"
  shows "(status e = Some 404 \<longrightarrow>
            (\<exists>rest. trace result =
                      snd st1 @ [GetReleaseByTag tparams, CreateRelease cparams] @ rest) \<and>
            (\<forall>r s3. createRelease releaser cparams s2 = (Inr r, s3) \<longrightarrow>
               result = (Inr r, (s3, snd st1 @ [GetReleaseByTag tparams, CreateRelease cparams])))) \<and>
         (status e \<noteq> Some 404 \<longrightarrow>
            result = (Inl e, (s2, snd st1 @ [GetReleaseByTag tparams])))"
  using lookup_404_then_create [OF assms(1-6) _ assms(7,8)]
    lookup_error_propagates [OF assms(1-6)] assms(8)
  by blast

theorem lookup_404_creates_other_error_propagates_witness:
  "(0::int) < 3 \<and>
   owner_repo ex_config = (ex_owner, ex_repo) \<and>
   draft_scan (stub_releaser (Inl not_found) (Inr ex_release) []) ex_config ex_owner ex_repo
     ''v1.0'' ((), []) = (Inr None, ((), [])) \<and>
   getReleaseByTag (stub_releaser (Inl not_found) (Inr ex_release) []) ex_tag_params () =
     (Inl not_found, ()) \<and>
   status not_found = Some 404 \<and>
   release ex_util (stub_releaser (Inl not_found) (Inr ex_release) []) ex_config 3 ((), []) =
     (Inr ex_release,
      ((), [GetReleaseByTag ex_tag_params,
            CreateRelease (create_release_params ex_util ex_config ex_owner ex_repo ''v1.0'')])) \<and>
   draft_scan (stub_releaser (Inl forbidden) (Inr ex_release) []) ex_config ex_owner ex_repo
     ''v1.0'' ((), []) = (Inr None, ((), [])) \<and>
   getReleaseByTag (stub_releaser (Inl forbidden) (Inr ex_release) []) ex_tag_params () =
     (Inl forbidden, ()) \<and>
   status forbidden = Some 403 \<and>
   release ex_util (stub_releaser (Inl forbidden) (Inr ex_release) []) ex_config 3 ((), []) =
     (Inl forbidden, ((), [GetReleaseByTag ex_tag_params]))"
proof -
  let ?r = "stub_releaser (Inl not_found) (Inr ex_release) []"
  let ?q = "stub_releaser (Inl forbidden) (Inr ex_release) []"
  let ?cp = "create_release_params ex_util ex_config ex_owner ex_repo ''v1.0''"
  have h1: "(0::int) < 3" by simp
  have tg: "''v1.0'' = resolve_tag ex_util ex_config" by (simp add: ex_resolve_tag)
  have tp: "ex_tag_params = \<lparr>tp_owner = ex_owner, tp_repo = ex_repo, tp_tag = ''v1.0''\<rparr>"
    by (simp add: ex_tag_params_def)
  have r3: "draft_scan ?r ex_config ex_owner ex_repo ''v1.0'' ((), []) = (Inr None, ((), []))"
    by (rule ex_no_draft_scan)
  have r4: "getReleaseByTag ?r ex_tag_params (fst ((), [])) = (Inl not_found, ())"
    by (simp add: stub_releaser_def)
  have r5: "createRelease ?r ?cp () = (Inr ex_release, ())"
    by (simp add: stub_releaser_def)
  have q3: "draft_scan ?q ex_config ex_owner ex_repo ''v1.0'' ((), []) = (Inr None, ((), []))"
    by (rule ex_no_draft_scan)
  have q4: "getReleaseByTag ?q ex_tag_params (fst ((), [])) = (Inl forbidden, ())"
    by (simp add: stub_releaser_def)
  have s1: "status not_found = Some 404" by (simp add: not_found_def)
  have s2: "status forbidden = Some 403" by (simp add: forbidden_def)
  from lookup_404_creates_other_error_propagates [OF h1 ex_owner_repo tg r3 tp r4 refl refl] s1 r5
  have a: "release ex_util ?r ex_config 3 ((), []) =
             (Inr ex_release, ((), [GetReleaseByTag ex_tag_params, CreateRelease ?cp]))"
    by simp
  from lookup_404_creates_other_error_propagates [OF h1 ex_owner_repo tg q3 tp q4 refl refl] s2
  have b: "release ex_util ?q ex_config 3 ((), []) =
             (Inl forbidden, ((), [GetReleaseByTag ex_tag_params]))"
    by simp
  from h1 ex_owner_repo r3 r4 s1 a q3 q4 s2 b show ?thesis by simp
qed

section \<open>The scan for a draft release\<close>

lemma find_append_case:
  "find P (xs @ ys) = (case find P xs of Some x \<Rightarrow> Some x | None \<Rightarrow> find P ys)"
  by (induction xs) auto

lemma scan_pages_loaded:
  "scan_pages tag (map Inr batches @ rest) =
     (case find (\<lambda>r. rel_tag_name r = tag) (concat batches) of
        Some r \<Rightarrow> Inr (Some r)
      | None \<Rightarrow> scan_pages tag rest)"
  by (induction batches) (auto simp: find_append_case split: option.splits)

lemma scan_pages_all_loaded:
  "scan_pages tag (map Inr batches) =
     (case find (\<lambda>r. rel_tag_name r = tag) (concat batches) of
        Some r \<Rightarrow> Inr (Some r)
      | None \<Rightarrow> Inr None)"
  using scan_pages_loaded [of tag batches "[]"] by (simp split: option.splits)

lemma update_path_no_create:
  "filter is_create (trace (update_path u releaser config owner repo tag existing st)) =
   filter is_create (snd st)"
  by (auto simp: update_path_def update_tag_ref_def call_eq trace_def Let_def
           split: sum.splits prod.splits)

lemma draft_scan_set:
  assumes "input_draft config = Some True"
    and "allReleases releaser \<lparr>lp_owner = owner, lp_repo = repo\<rparr> s = (pages, s1)"
  shows "draft_scan releaser config owner repo tag (s, []) =
         (scan_pages tag pages, (s1, [AllReleases \<lparr>lp_owner = owner, lp_repo = repo\<rparr>]))"
  using assms by (simp add: draft_scan_def truthy_bool_def call_def Let_def)

text \<open>
  C5, as stated, fails: with the draft flag set, a list of releases without the tag
  and a lookup by tag that finds a release, the run updates that release and never
  calls \<open>createRelease\<close>.
\<close>

theorem draft_scan_miss_then_update:
  "input_draft (ex_config\<lparr>input_draft := Some True\<rparr>) = Some True \<and>
   resolve_tag ex_util (ex_config\<lparr>input_draft := Some True\<rparr>) = ''v1.0'' \<and>
   allReleases (stub_releaser (Inr ex_release) (Inl already_exists) [Inr [other_release]])
     ex_list_params () = ([Inr [other_release]], ()) \<and>
   map rel_tag_name [other_release] = [''v0.9''] \<and>
   trace (release ex_util
            (stub_releaser (Inr ex_release) (Inl already_exists) [Inr [other_release]])
            (ex_config\<lparr>input_draft := Some True\<rparr>) 3 ((), [])) =
     [AllReleases ex_list_params,
      GetReleaseByTag ex_tag_params,
      UpdateRelease (update_release_params ex_util (ex_config\<lparr>input_draft := Some True\<rparr>)
                       ex_owner ex_repo ''v1.0'' ex_release)] \<and>
   filter is_create
     (trace (release ex_util
               (stub_releaser (Inr ex_release) (Inl already_exists) [Inr [other_release]])
               (ex_config\<lparr>input_draft := Some True\<rparr>) 3 ((), []))) = []"
proof -
  let ?r = "stub_releaser (Inr ex_release) (Inl already_exists) [Inr [other_release]]"
  let ?c = "ex_config\<lparr>input_draft := Some True\<rparr>"
  have h1: "(0::int) < 3" by simp
  have h2: "owner_repo ?c = (ex_owner, ex_repo)" by (simp add: ex_owner_repo)
  have tg: "resolve_tag ex_util ?c = ''v1.0''" by (simp add: ex_resolve_tag)
  have al: "allReleases ?r ex_list_params () = ([Inr [other_release]], ())"
    by (simp add: stub_releaser_def)
  have ot: "map rel_tag_name [other_release] = [''v0.9'']"
    by (simp add: other_release_def)
  have h3: "draft_scan ?r ?c ex_owner ex_repo (resolve_tag ex_util ?c) ((), []) =
              (Inr None, ((), [AllReleases ex_list_params]))"
    using draft_scan_set [of ?c ?r ex_owner ex_repo "()" "[Inr [other_release]]" "()" "''v1.0''"] al
    by (simp add: ex_resolve_tag ex_list_params_def other_release_def)
  have h4: "lookup ?r ex_owner ex_repo (resolve_tag ex_util ?c) ((), [AllReleases ex_list_params]) =
              (Inr (Some ex_release),
               ((), [AllReleases ex_list_params, GetReleaseByTag ex_tag_params]))"
    using ex_lookup_found [of _ _ "[AllReleases ex_list_params]"] by (simp add: ex_resolve_tag)
  have tr: "trace (release ex_util ?r ?c 3 ((), [])) =
              [AllReleases ex_list_params, GetReleaseByTag ex_tag_params,
               UpdateRelease (update_release_params ex_util ?c ex_owner ex_repo ''v1.0'' ex_release)]"
    unfolding release_update [OF h1 h2 h3 h4]
    by (simp add: update_path_def update_tag_ref_def truthy_bool_def call_def trace_def Let_def
          ex_resolve_tag ex_flags stub_releaser_def)
  show ?thesis using al ot tr by (simp add: ex_resolve_tag)
qed

text \<open>
  C5, amended: with the draft flag set, the run lists the releases and returns the
  first release, in page order, whose tag is the resolved tag, after no other call
  (the pages behind it are not read). If every page loads and no release on any page
  has the tag, the run goes on with the lookup by tag: a 404 there leads to the
  \<open>createRelease\<close> call, and a release found there is updated, with no creation.
\<close>

theorem draft_scan_first_match_else_lookup:
  assumes "0 < maxRetries"
    and "owner_repo config = (owner, repo)"
    and "input_draft config = Some True"
    and "tag = resolve_tag u config"
    and "lparams = \<lparr>lp_owner = owner, lp_repo = repo\<rparr>"
    and "tparams = \<lparr>tp_owner = owner, tp_repo = repo, tp_tag = tag\<rparr>"
    and "cparams = create_release_params u config owner repo tag"
    and "allReleases releaser lparams s = (map Inr batches @ rest, s1)"
    and "result = release u releaser config maxRetries (s, [])"
  shows "(\<forall>r. find (\<lambda>x. rel_tag_name x = tag) (concat batches) = Some r \<longrightarrow>
            result = (Inr r, (s1, [AllReleases lparams]))) \<and>
         (find (\<lambda>x. rel_tag_name x = tag) (concat batches) = None \<and> rest = [] \<longrightarrow>
            (\<exists>more. trace result = [AllReleases lparams, GetReleaseByTag tparams] @ more) \<and>
            (\<forall>e s2. getReleaseByTag releaser tparams s1 = (Inl e, s2) \<and> status e = Some 404 \<longrightarrow>
               (\<exists>more. trace result =
                  [AllReleases lparams, GetReleaseByTag tparams, CreateRelease cparams] @ more)) \<and>
            (\<forall>existing s2. getReleaseByTag releaser tparams s1 = (Inr existing, s2) \<longrightarrow>
               result = update_path u releaser config owner repo tag existing
                          (s2, [AllReleases lparams, GetReleaseByTag tparams]) \<and>
               filter is_create (trace result) = []))"
proof (intro conjI allI impI)
  fix r
  assume "find (\<lambda>x. rel_tag_name x = tag) (concat batches) = Some r"
  then have "draft_scan releaser config owner repo (resolve_tag u config) (s, []) =
               (Inr (Some r), (s1, [AllReleases lparams]))"
    using draft_scan_set [OF assms(3) assms(8) [unfolded assms(5)]] assms(4,5)
    by (simp add: scan_pages_loaded scan_pages_all_loaded)
  then show "result = (Inr r, (s1, [AllReleases lparams]))"
    using assms(1,2,9) by (simp add: release_pos release_attempt_def)
next
  assume none: "find (\<lambda>x. rel_tag_name x = tag) (concat batches) = None \<and> rest = []"
  then have ds: "draft_scan releaser config owner repo tag (s, []) =
                   (Inr None, (s1, [AllReleases lparams]))"
    using draft_scan_set [OF assms(3) assms(8) [unfolded assms(5)]] assms(5)
    by (simp add: scan_pages_loaded scan_pages_all_loaded)
  show "\<exists>more. trace result = [AllReleases lparams, GetReleaseByTag tparams] @ more"
  proof (cases "getReleaseByTag releaser tparams s1")
    case (Pair out s2)
    show ?thesis
    proof (cases out)
      case (Inl e)
      have g: "getReleaseByTag releaser tparams (fst (s1, [AllReleases lparams])) = (Inl e, s2)"
        using Pair Inl by simp
      show ?thesis
      proof (cases "status e = Some 404")
        case True
        from lookup_404_then_create(1) [OF assms(1,2,4) ds assms(6) g True assms(7,9)]
        show ?thesis by auto
      next
        case False
        from lookup_error_propagates [OF assms(1,2,4) ds assms(6) g False]
        show ?thesis using assms(9) by (simp add: trace_def)
      qed
    next
      case (Inr existing)
      have lk: "lookup releaser owner repo (resolve_tag u config) (s1, [AllReleases lparams]) =
                  (Inr (Some existing), (s2, [AllReleases lparams, GetReleaseByTag tparams]))"
        using Pair Inr assms(4,6) by (simp add: lookup_def call_def Let_def)
      have "result = update_path u releaser config owner repo tag existing
                       (s2, [AllReleases lparams, GetReleaseByTag tparams])"
        using release_update [OF assms(1,2) ds [unfolded assms(4)] lk] assms(4,9) by simp
      moreover obtain res st' where
        "update_path u releaser config owner repo tag existing
           (s2, [AllReleases lparams, GetReleaseByTag tparams]) = (res, st')"
        by (cases "update_path u releaser config owner repo tag existing
                     (s2, [AllReleases lparams, GetReleaseByTag tparams])")
      ultimately show ?thesis
        using update_path_trace [of u releaser config owner repo tag existing
                "(s2, [AllReleases lparams, GetReleaseByTag tparams])" res st']
        by (auto simp: trace_def)
    qed
  qed
next
  fix e s2
  assume none: "find (\<lambda>x. rel_tag_name x = tag) (concat batches) = None \<and> rest = []"
    and g0: "getReleaseByTag releaser tparams s1 = (Inl e, s2) \<and> status e = Some 404"
  have ds: "draft_scan releaser config owner repo tag (s, []) =
              (Inr None, (s1, [AllReleases lparams]))"
    using none draft_scan_set [OF assms(3) assms(8) [unfolded assms(5)]] assms(5)
    by (simp add: scan_pages_loaded scan_pages_all_loaded)
  have g: "getReleaseByTag releaser tparams (fst (s1, [AllReleases lparams])) = (Inl e, s2)"
    using g0 by simp
  from lookup_404_then_create(1) [OF assms(1,2,4) ds assms(6) g _ assms(7,9)] g0
  show "\<exists>more. trace result =
          [AllReleases lparams, GetReleaseByTag tparams, CreateRelease cparams] @ more"
    by auto
next
  fix existing s2
  assume none: "find (\<lambda>x. rel_tag_name x = tag) (concat batches) = None \<and> rest = []"
    and g0: "getReleaseByTag releaser tparams s1 = (Inr existing, s2)"
  have ds: "draft_scan releaser config owner repo tag (s, []) =
              (Inr None, (s1, [AllReleases lparams]))"
    using none draft_scan_set [OF assms(3) assms(8) [unfolded assms(5)]] assms(5)
    by (simp add: scan_pages_loaded scan_pages_all_loaded)
  have lk: "lookup releaser owner repo (resolve_tag u config) (s1, [AllReleases lparams]) =
              (Inr (Some existing), (s2, [AllReleases lparams, GetReleaseByTag tparams]))"
    using g0 assms(4,6) by (simp add: lookup_def call_def Let_def)
  show r: "result = update_path u releaser config owner repo tag existing
                   (s2, [AllReleases lparams, GetReleaseByTag tparams])"
    using release_update [OF assms(1,2) ds [unfolded assms(4)] lk] assms(4,9) by simp
  show "filter is_create (trace result) = []"
    unfolding r by (simp add: update_path_no_create)
qed

theorem draft_scan_first_match_else_lookup_witness:
  "(0::int) < 3 \<and>
   owner_repo (ex_config\<lparr>input_draft := Some True\<rparr>) = (ex_owner, ex_repo) \<and>
   input_draft (ex_config\<lparr>input_draft := Some True\<rparr>) = Some True \<and>
   allReleases
     (stub_releaser (Inl not_found) (Inl already_exists)
        [Inr [other_release], Inr [ex_release], Inl forbidden])
     ex_list_params () =
     (map Inr [[other_release], [ex_release]] @ [Inl forbidden], ()) \<and>
   find (\<lambda>x. rel_tag_name x = ''v1.0'') (concat [[other_release], [ex_release]]) =
     Some ex_release \<and>
   release ex_util
     (stub_releaser (Inl not_found) (Inl already_exists)
        [Inr [other_release], Inr [ex_release], Inl forbidden])
     (ex_config\<lparr>input_draft := Some True\<rparr>) 3 ((), []) =
     (Inr ex_release, ((), [AllReleases ex_list_params])) \<and>
   allReleases (stub_releaser (Inl not_found) (Inr ex_release) [Inr [other_release]])
     ex_list_params () = (map Inr [[other_release]] @ [], ()) \<and>
   find (\<lambda>x. rel_tag_name x = ''v1.0'') (concat [[other_release]]) = None \<and>
   getReleaseByTag (stub_releaser (Inl not_found) (Inr ex_release) [Inr [other_release]])
     ex_tag_params () = (Inl not_found, ()) \<and>
   status not_found = Some 404 \<and>
   release ex_util (stub_releaser (Inl not_found) (Inr ex_release) [Inr [other_release]])
     (ex_config\<lparr>input_draft := Some True\<rparr>) 3 ((), []) =
     (Inr ex_release,
      ((), [AllReleases ex_list_params,
            GetReleaseByTag ex_tag_params,
            CreateRelease (create_release_params ex_util (ex_config\<lparr>input_draft := Some True\<rparr>)
                             ex_owner ex_repo ''v1.0'')]))"
proof -
  let ?r = "stub_releaser (Inl not_found) (Inl already_exists)
              [Inr [other_release], Inr [ex_release], Inl forbidden]"
  let ?q = "stub_releaser (Inl not_found) (Inr ex_release) [Inr [other_release]]"
  let ?c = "ex_config\<lparr>input_draft := Some True\<rparr>"
  let ?cp = "create_release_params ex_util ?c ex_owner ex_repo ''v1.0''"
  have h1: "(0::int) < 3" by simp
  have h2: "owner_repo ?c = (ex_owner, ex_repo)" by (simp add: ex_owner_repo)
  have h3: "input_draft ?c = Some True" by simp
  have tg: "''v1.0'' = resolve_tag ex_util ?c" by (simp add: ex_resolve_tag)
  have lp: "ex_list_params = \<lparr>lp_owner = ex_owner, lp_repo = ex_repo\<rparr>"
    by (simp add: ex_list_params_def)
  have tp: "ex_tag_params = \<lparr>tp_owner = ex_owner, tp_repo = ex_repo, tp_tag = ''v1.0''\<rparr>"
    by (simp add: ex_tag_params_def)
  have r8: "allReleases ?r ex_list_params () =
              (map Inr [[other_release], [ex_release]] @ [Inl forbidden], ())"
    by (simp add: stub_releaser_def)
  have q8: "allReleases ?q ex_list_params () = (map Inr [[other_release]] @ [], ())"
    by (simp add: stub_releaser_def)
  have f1: "find (\<lambda>x. rel_tag_name x = ''v1.0'') (concat [[other_release], [ex_release]]) =
              Some ex_release"
    by (simp add: other_release_def ex_release_def)
  have f2: "find (\<lambda>x. rel_tag_name x = ''v1.0'') (concat [[other_release]]) = None"
    by (simp add: other_release_def ex_release_def)
  have g: "getReleaseByTag ?q ex_tag_params () = (Inl not_found, ())"
    by (simp add: stub_releaser_def)
  have s: "status not_found = Some 404" by (simp add: not_found_def)
  from draft_scan_first_match_else_lookup [OF h1 h2 h3 tg lp tp refl r8 refl] f1
  have a: "release ex_util ?r ?c 3 ((), []) = (Inr ex_release, ((), [AllReleases ex_list_params]))"
    by simp
  have ds: "draft_scan ?q ?c ex_owner ex_repo (resolve_tag ex_util ?c) ((), []) =
              (Inr None, ((), [AllReleases ex_list_params]))"
    using draft_scan_set [of ?c ?q ex_owner ex_repo "()" "[Inr [other_release]]" "()" "''v1.0''"]
    by (simp add: ex_resolve_tag ex_list_params_def other_release_def ex_release_def
          stub_releaser_def)
  have g': "getReleaseByTag ?q ex_tag_params (fst ((), [AllReleases ex_list_params])) =
              (Inl not_found, ())"
    using g by simp
  have cr: "createRelease ?q ?cp () = (Inr ex_release, ())"
    by (simp add: stub_releaser_def)
  from lookup_404_then_create(2) [OF h1 h2 tg ds [folded tg] tp g' s refl refl] cr
  have b: "release ex_util ?q ?c 3 ((), []) =
             (Inr ex_release,
              ((), [AllReleases ex_list_params, GetReleaseByTag ex_tag_params, CreateRelease ?cp]))"
    by simp
  from draft_scan_first_match_else_lookup [OF h1 h2 h3 tg lp tp refl q8 refl]
    h1 h2 h3 r8 f1 a q8 f2 g s b
  show ?thesis by simp
qed

section \<open>Uploading an asset\<close>

lemma ex_show: "show_nat 3 = ''3''" "show_int 422 = ''422''"
  by code_simp+

lemma ex_env:
  "newURL (stub_env deleted fetched) url = Inr \<lparr>ep_href = url, ep_search = []\<rparr>"
  "deleteReleaseAsset (stub_env deleted fetched) p s = (deleted, s)"
  "fetch (stub_env deleted fetched) req s = (fetched, s)"
  by (simp_all add: stub_env_def)

lemma ex_asset_name: "asset_name ex_asset = ''app.zip''"
  by (simp add: ex_asset_def)

lemma ex_asset_loaded: "asset (stub_env deleted fetched) ''dist/app.zip'' = Inr ex_asset"
  by (simp add: asset_def mimeOrDefault_def or_str_def stub_env_def ex_asset_def)

lemma ex_upload_request:
  "upload_request ex_config ex_asset \<lparr>ep_href = ex_url, ep_search = []\<rparr> = ex_request"
  "upload_request (ex_config\<lparr>input_overwrite_files := f\<rparr>) ex_asset
     \<lparr>ep_href = ex_url, ep_search = []\<rparr> = ex_request"
  by (simp_all add: upload_request_def ex_request_def ex_asset_def ex_config_def ex_show)

lemma ex_failure_message:
  "upload_failure_message ''app.zip'' 422 ex_json =
     ''Failed to upload release asset app.zip. received status code 422'' @ [CHR 0x0A] @
     ''Validation Failed'' @ [CHR 0x0A] @ ''[{code:already_exists}]''"
  by (simp add: upload_failure_message_def ex_show show_opt_def ex_json_def)

lemma ex_upload_file:
  "upload_file (stub_env deleted (Inr resp)) (ex_config\<lparr>input_overwrite_files := f\<rparr>) ex_url
     ex_asset ((), tr) =
     (upload_response ''app.zip'' resp, ((), tr @ [Fetch ex_request]))"
  "upload_file (stub_env deleted (Inr resp)) ex_config ex_url ex_asset ((), tr) =
     (upload_response ''app.zip'' resp, ((), tr @ [Fetch ex_request]))"
  by (simp_all add: upload_file_def call_def Let_def ex_upload_request ex_env ex_asset_name)

text \<open>
  C8, as stated, fails: for a matching asset whose id is 0 and \<open>overwrite_files\<close>
  true, the one delete request is for the asset id 1 (line 186: \<open>currentAsset.id || 1\<close>),
  not for the matching asset's id.
\<close>

theorem overwrite_id_zero_deletes_id_one:
  "input_overwrite_files (ex_config\<lparr>input_overwrite_files := Some True\<rparr>) = Some True \<and>
   asset (stub_env (Inr ()) (Inr (ex_response 201))) ''dist/app.zip'' = Inr ex_asset \<and>
   find (\<lambda>c. ref_name c = asset_name ex_asset) [\<lparr>ref_id = 0, ref_name = ''app.zip''\<rparr>] =
     Some \<lparr>ref_id = 0, ref_name = ''app.zip''\<rparr> \<and>
   trace (upload (stub_env (Inr ()) (Inr (ex_response 201)))
            (ex_config\<lparr>input_overwrite_files := Some True\<rparr>) ex_url ''dist/app.zip''
            [\<lparr>ref_id = 0, ref_name = ''app.zip''\<rparr>] ((), [])) =
     [DeleteReleaseAsset \<lparr>da_asset_id = 1, da_owner = ex_owner, da_repo = ex_repo\<rparr>,
      Fetch ex_request]"
proof -
  have "find (\<lambda>c. ref_name c = asset_name ex_asset) [\<lparr>ref_id = 0, ref_name = ''app.zip''\<rparr>] =
          Some \<lparr>ref_id = 0, ref_name = ''app.zip''\<rparr>"
    by (simp add: ex_asset_name)
  moreover have "trace (upload (stub_env (Inr ()) (Inr (ex_response 201)))
            (ex_config\<lparr>input_overwrite_files := Some True\<rparr>) ex_url ''dist/app.zip''
            [\<lparr>ref_id = 0, ref_name = ''app.zip''\<rparr>] ((), [])) =
     [DeleteReleaseAsset \<lparr>da_asset_id = 1, da_owner = ex_owner, da_repo = ex_repo\<rparr>,
      Fetch ex_request]"
    by (simp add: upload_def delete_params_def ex_owner_repo ex_asset_loaded ex_asset_name
          ex_upload_file ex_env call_def trace_def Let_def)
  ultimately show ?thesis by (simp add: ex_asset_loaded)
qed

text \<open>
  C8, amended: when \<open>currentAssets\<close> has an asset with the file's name and
  \<open>overwrite_files\<close> is false, \<open>upload\<close> returns \<open>null\<close> and makes no request. When
  \<open>overwrite_files\<close> is true, it makes one delete request, for the matching asset's
  id if that is not 0 and for the id 1 otherwise; the upload request is made once,
  after the delete has succeeded and the upload URL has parsed, and not at all
  when either fails.
\<close>

theorem upload_existing_asset:
  assumes "owner_repo config = (owner, repo)"
    and "asset env path = Inr a"
    and "find (\<lambda>c. ref_name c = asset_name a) currentAssets = Some current"
    and "dparams = \<lparr>da_asset_id = (if ref_id current = 0 then 1 else ref_id current),
                    da_owner = owner, da_repo = repo\<rparr>"
    and "result = upload env config url path currentAssets (s, [])"
  shows "(input_overwrite_files config = Some False \<longrightarrow> result = (Inr None, (s, []))) \<and>
         (input_overwrite_files config = Some True \<longrightarrow>
            (\<forall>e s1. deleteReleaseAsset env dparams s = (Inl e, s1) \<longrightarrow>
               result = (Inl e, (s1, [DeleteReleaseAsset dparams]))) \<and>
            (\<forall>x s1 e. deleteReleaseAsset env dparams s = (Inr x, s1) \<and> newURL env url = Inl e \<longrightarrow>
               result = (Inl e, (s1, [DeleteReleaseAsset dparams]))) \<and>
            (\<forall>x s1 url0. deleteReleaseAsset env dparams s = (Inr x, s1) \<and>
                          newURL env url = Inr url0 \<longrightarrow>
               trace result =
                 [DeleteReleaseAsset dparams, Fetch (upload_request config a url0)]))"
  using assms
  by (auto simp: upload_def upload_file_def delete_params_def call_def trace_def Let_def
           split: prod.splits sum.splits)

theorem upload_existing_asset_witness:
  "owner_repo (ex_config\<lparr>input_overwrite_files := Some False\<rparr>) = (ex_owner, ex_repo) \<and>
   asset (stub_env (Inr ()) (Inr (ex_response 201))) ''dist/app.zip'' = Inr ex_asset \<and>
   find (\<lambda>c. ref_name c = asset_name ex_asset)
     [\<lparr>ref_id = 41, ref_name = ''notes.txt''\<rparr>, \<lparr>ref_id = 42, ref_name = ''app.zip''\<rparr>] =
     Some \<lparr>ref_id = 42, ref_name = ''app.zip''\<rparr> \<and>
   input_overwrite_files (ex_config\<lparr>input_overwrite_files := Some False\<rparr>) = Some False \<and>
   upload (stub_env (Inr ()) (Inr (ex_response 201)))
     (ex_config\<lparr>input_overwrite_files := Some False\<rparr>) ex_url ''dist/app.zip''
     [\<lparr>ref_id = 41, ref_name = ''notes.txt''\<rparr>, \<lparr>ref_id = 42, ref_name = ''app.zip''\<rparr>]
     ((), []) = (Inr None, ((), [])) \<and>
   input_overwrite_files (ex_config\<lparr>input_overwrite_files := Some True\<rparr>) = Some True \<and>
   deleteReleaseAsset (stub_env (Inr ()) (Inr (ex_response 201)))
     \<lparr>da_asset_id = 42, da_owner = ex_owner, da_repo = ex_repo\<rparr> () = (Inr (), ()) \<and>
   newURL (stub_env (Inr ()) (Inr (ex_response 201))) ex_url =
     Inr \<lparr>ep_href = ex_url, ep_search = []\<rparr> \<and>
   trace (upload (stub_env (Inr ()) (Inr (ex_response 201)))
            (ex_config\<lparr>input_overwrite_files := Some True\<rparr>) ex_url ''dist/app.zip''
            [\<lparr>ref_id = 41, ref_name = ''notes.txt''\<rparr>, \<lparr>ref_id = 42, ref_name = ''app.zip''\<rparr>]
            ((), [])) =
     [DeleteReleaseAsset \<lparr>da_asset_id = 42, da_owner = ex_owner, da_repo = ex_repo\<rparr>,
      Fetch ex_request]"
proof -
  let ?env = "stub_env (Inr ()) (Inr (ex_response 201))"
  let ?assets = "[\<lparr>ref_id = 41, ref_name = ''notes.txt''\<rparr>, \<lparr>ref_id = 42, ref_name = ''app.zip''\<rparr>]"
  let ?f = "ex_config\<lparr>input_overwrite_files := Some False\<rparr>"
  let ?t = "ex_config\<lparr>input_overwrite_files := Some True\<rparr>"
  have o1: "owner_repo ?f = (ex_owner, ex_repo)" by (simp add: ex_owner_repo)
  have o2: "owner_repo ?t = (ex_owner, ex_repo)" by (simp add: ex_owner_repo)
  have a: "asset ?env ''dist/app.zip'' = Inr ex_asset" by (rule ex_asset_loaded)
  have f: "find (\<lambda>c. ref_name c = asset_name ex_asset) ?assets =
             Some \<lparr>ref_id = 42, ref_name = ''app.zip''\<rparr>"
    by (simp add: ex_asset_name)
  have d: "deleteReleaseAsset ?env \<lparr>da_asset_id = 42, da_owner = ex_owner, da_repo = ex_repo\<rparr> () =
             (Inr (), ())"
    by (simp add: ex_env)
  have n: "newURL ?env ex_url = Inr \<lparr>ep_href = ex_url, ep_search = []\<rparr>"
    by (simp add: ex_env)
  from upload_existing_asset [OF o1 a f refl refl]
  have skip: "upload ?env ?f ex_url ''dist/app.zip'' ?assets ((), []) = (Inr None, ((), []))"
    by simp
  from upload_existing_asset [OF o2 a f refl refl] d n
  have over: "trace (upload ?env ?t ex_url ''dist/app.zip'' ?assets ((), [])) =
     [DeleteReleaseAsset \<lparr>da_asset_id = 42, da_owner = ex_owner, da_repo = ex_repo\<rparr>,
      Fetch ex_request]"
    by (simp add: ex_upload_request)
  from o1 a f skip d n over show ?thesis by simp
qed

section \<open>The upload response\<close>

text \<open>
  C9: for the upload request that \<open>upload\<close> issues, a response status other than
  201 makes the operation fail; with the response body decoded, the failure is an
  \<open>Error\<close> whose message is built from the asset name, the status, the body's
  \<open>message\<close> and the JSON text of the body's \<open>errors\<close>, and a status of 201 makes
  the decoded body the result.
\<close>

theorem upload_status_decides:
  assumes "owner_repo config = (owner, repo)"
    and "asset env path = Inr a"
    and "find (\<lambda>c. ref_name c = asset_name a) currentAssets = None \<and> s1 = s \<or>
         (\<exists>current. find (\<lambda>c. ref_name c = asset_name a) currentAssets = Some current \<and>
            input_overwrite_files config \<noteq> Some False \<and>
            deleteReleaseAsset env (delete_params owner repo current) s = (Inr (), s1))"
    and "newURL env url = Inr url0"
    and "fetch env (upload_request config a url0) s1 = (Inr resp, s2)"
    and "result = fst (upload env config url path currentAssets (s, []))"
  shows "(resp_status resp \<noteq> 201 \<longrightarrow> (\<exists>e. result = Inl e)) \<and>
         (\<forall>json. resp_json resp = Inr json \<longrightarrow>
            result =
              (if resp_status resp \<noteq> 201
               then Inl (Error (''Failed to upload release asset '' @ asset_name a @
                                ''. received status code '' @ show_int (resp_status resp) @
                                [CHR 0x0A] @ show_opt (jb_message json) @
                                [CHR 0x0A] @ show_opt (jb_errors json)))
               else Inr (Some json)))"
proof -
  have "result = upload_response (asset_name a) resp"
    using assms
    by (auto simp: upload_def upload_file_def call_def Let_def)
  then show ?thesis
    by (auto simp: upload_response_def upload_failure_message_def split: sum.splits)
qed

theorem upload_status_decides_witness:
  "owner_repo ex_config = (ex_owner, ex_repo) \<and>
   asset (stub_env (Inr ()) (Inr (ex_response 422))) ''dist/app.zip'' = Inr ex_asset \<and>
   find (\<lambda>c. ref_name c = asset_name ex_asset) [\<lparr>ref_id = 41, ref_name = ''notes.txt''\<rparr>] = None \<and>
   newURL (stub_env (Inr ()) (Inr (ex_response 422))) ex_url =
     Inr \<lparr>ep_href = ex_url, ep_search = []\<rparr> \<and>
   fetch (stub_env (Inr ()) (Inr (ex_response 422))) ex_request () = (Inr (ex_response 422), ()) \<and>
   resp_status (ex_response 422) = 422 \<and>
   resp_json (ex_response 422) = Inr ex_json \<and>
   fst (upload (stub_env (Inr ()) (Inr (ex_response 422))) ex_config ex_url ''dist/app.zip''
          [\<lparr>ref_id = 41, ref_name = ''notes.txt''\<rparr>] ((), [])) =
     Inl (Error (''Failed to upload release asset app.zip. received status code 422'' @
                 [CHR 0x0A] @ ''Validation Failed'' @ [CHR 0x0A] @ ''[{code:already_exists}]'')) \<and>
   fetch (stub_env (Inr ()) (Inr (ex_response 201))) ex_request () = (Inr (ex_response 201), ()) \<and>
   resp_status (ex_response 201) = 201 \<and>
   resp_json (ex_response 201) = Inr ex_json \<and>
   fst (upload (stub_env (Inr ()) (Inr (ex_response 201))) ex_config ex_url ''dist/app.zip''
          [\<lparr>ref_id = 41, ref_name = ''notes.txt''\<rparr>] ((), [])) = Inr (Some ex_json)"
proof -
  let ?bad = "stub_env (Inr ()) (Inr (ex_response 422))"
  let ?ok = "stub_env (Inr ()) (Inr (ex_response 201))"
  let ?assets = "[\<lparr>ref_id = 41, ref_name = ''notes.txt''\<rparr>]"
  have f: "find (\<lambda>c. ref_name c = asset_name ex_asset) ?assets = None"
    by (simp add: ex_asset_name)
  have f': "find (\<lambda>c. ref_name c = asset_name ex_asset) ?assets = None \<and> () = () \<or>
            (\<exists>current. find (\<lambda>c. ref_name c = asset_name ex_asset) ?assets = Some current \<and>
               input_overwrite_files ex_config \<noteq> Some False \<and>
               deleteReleaseAsset env (delete_params ex_owner ex_repo current) () = (Inr (), ()))"
    for env :: "unit UploadEnv"
    using f by simp
  have n: "newURL (stub_env d r) ex_url = Inr \<lparr>ep_href = ex_url, ep_search = []\<rparr>" for d r
    by (simp add: ex_env)
  have rq: "fetch (stub_env d (Inr r)) (upload_request ex_config ex_asset
              \<lparr>ep_href = ex_url, ep_search = []\<rparr>) () = (Inr r, ())" for d r
    by (simp add: ex_env)
  have rq': "fetch (stub_env d (Inr r)) ex_request () = (Inr r, ())" for d r
    by (simp add: ex_env)
  have j: "resp_json (ex_response st) = Inr ex_json" "resp_status (ex_response st) = st" for st
    by (simp_all add: ex_response_def)
  from upload_status_decides
         [OF ex_owner_repo ex_asset_loaded [of "Inr ()" "Inr (ex_response 422)"] f'
             n [of "Inr ()" "Inr (ex_response 422)"] rq [of "Inr ()" "ex_response 422"] refl]
  have bad: "fst (upload ?bad ex_config ex_url ''dist/app.zip'' ?assets ((), [])) =
     Inl (Error (''Failed to upload release asset app.zip. received status code 422'' @
                 [CHR 0x0A] @ ''Validation Failed'' @ [CHR 0x0A] @ ''[{code:already_exists}]''))"
    by (simp add: j ex_show ex_asset_name show_opt_def ex_json_def)
  from upload_status_decides
         [OF ex_owner_repo ex_asset_loaded [of "Inr ()" "Inr (ex_response 201)"] f'
             n [of "Inr ()" "Inr (ex_response 201)"] rq [of "Inr ()" "ex_response 201"] refl]
  have ok: "fst (upload ?ok ex_config ex_url ''dist/app.zip'' ?assets ((), [])) = Inr (Some ex_json)"
    by (simp add: j)
  from ex_owner_repo ex_asset_loaded f n rq' j bad ok show ?thesis by simp
qed

section \<open>An unset overwrite flag\<close>

text \<open>
  C10: the test of line 178 is \<open>=== false\<close>, so with a same-named asset present and
  \<open>overwrite_files\<close> undefined the function does not return \<open>null\<close>: it behaves
  exactly as with \<open>overwrite_files\<close> true, and its first request is the delete
  request. It returns \<open>null\<close> only when \<open>overwrite_files\<close> is \<open>false\<close>.
\<close>

theorem overwrite_undefined_acts_as_true:
  assumes "owner_repo config = (owner, repo)"
    and "asset env path = Inr a"
    and "find (\<lambda>c. ref_name c = asset_name a) currentAssets = Some current"
  shows "(input_overwrite_files config = None \<longrightarrow>
            upload env config url path currentAssets st =
              upload env (config\<lparr>input_overwrite_files := Some True\<rparr>) url path currentAssets st \<and>
            (\<exists>rest. trace (upload env config url path currentAssets (s, [])) =
                      DeleteReleaseAsset (delete_params owner repo current) # rest) \<and>
            (\<forall>x s1 url0. deleteReleaseAsset env (delete_params owner repo current) s = (Inr x, s1) \<and>
                          newURL env url = Inr url0 \<longrightarrow>
               trace (upload env config url path currentAssets (s, [])) =
                 [DeleteReleaseAsset (delete_params owner repo current),
                  Fetch (upload_request config a url0)])) \<and>
         (fst (upload env config url path currentAssets st) = Inr None \<longleftrightarrow>
            input_overwrite_files config = Some False)"
proof (intro conjI impI)
  assume u: "input_overwrite_files config = None"
  have "upload_file env (config\<lparr>input_overwrite_files := Some True\<rparr>) url a st' =
        upload_file env config url a st'" for st'
    by (simp add: upload_file_def upload_request_def split: sum.splits)
  then show "upload env config url path currentAssets st =
        upload env (config\<lparr>input_overwrite_files := Some True\<rparr>) url path currentAssets st"
    using assms u by (simp add: upload_def Let_def split: prod.splits sum.splits)
  show "\<exists>rest. trace (upload env config url path currentAssets (s, [])) =
                 DeleteReleaseAsset (delete_params owner repo current) # rest"
    using assms u
    by (auto simp: upload_def upload_file_def call_def trace_def Let_def
             split: prod.splits sum.splits)
  show "\<forall>x s1 url0. deleteReleaseAsset env (delete_params owner repo current) s = (Inr x, s1) \<and>
                     newURL env url = Inr url0 \<longrightarrow>
          trace (upload env config url path currentAssets (s, [])) =
            [DeleteReleaseAsset (delete_params owner repo current),
             Fetch (upload_request config a url0)]"
    using assms u
    by (auto simp: upload_def upload_file_def call_def trace_def Let_def
             split: prod.splits sum.splits)
next
  show "fst (upload env config url path currentAssets st) = Inr None \<longleftrightarrow>
        input_overwrite_files config = Some False"
    using assms
    by (auto simp: upload_def upload_file_def upload_response_def call_def Let_def
             split: prod.splits sum.splits if_splits)
qed

theorem overwrite_undefined_acts_as_true_witness:
  "owner_repo ex_config = (ex_owner, ex_repo) \<and>
   asset (stub_env (Inr ()) (Inr (ex_response 201))) ''dist/app.zip'' = Inr ex_asset \<and>
   find (\<lambda>c. ref_name c = asset_name ex_asset) [\<lparr>ref_id = 42, ref_name = ''app.zip''\<rparr>] =
     Some \<lparr>ref_id = 42, ref_name = ''app.zip''\<rparr> \<and>
   input_overwrite_files ex_config = None \<and>
   upload (stub_env (Inr ()) (Inr (ex_response 201))) ex_config ex_url ''dist/app.zip''
     [\<lparr>ref_id = 42, ref_name = ''app.zip''\<rparr>] ((), []) =
   upload (stub_env (Inr ()) (Inr (ex_response 201)))
     (ex_config\<lparr>input_overwrite_files := Some True\<rparr>) ex_url ''dist/app.zip''
     [\<lparr>ref_id = 42, ref_name = ''app.zip''\<rparr>] ((), []) \<and>
   upload (stub_env (Inr ()) (Inr (ex_response 201))) ex_config ex_url ''dist/app.zip''
     [\<lparr>ref_id = 42, ref_name = ''app.zip''\<rparr>] ((), []) =
     (Inr (Some ex_json),
      ((), [DeleteReleaseAsset \<lparr>da_asset_id = 42, da_owner = ex_owner, da_repo = ex_repo\<rparr>,
            Fetch ex_request]))"
proof -
  let ?env = "stub_env (Inr ()) (Inr (ex_response 201))"
  let ?assets = "[\<lparr>ref_id = 42, ref_name = ''app.zip''\<rparr>]"
  have f: "find (\<lambda>c. ref_name c = asset_name ex_asset) ?assets =
             Some \<lparr>ref_id = 42, ref_name = ''app.zip''\<rparr>"
    by (simp add: ex_asset_name)
  have u: "input_overwrite_files ex_config = None" by (simp add: ex_config_def)
  have r: "upload ?env ex_config ex_url ''dist/app.zip'' ?assets ((), []) =
     (Inr (Some ex_json),
      ((), [DeleteReleaseAsset \<lparr>da_asset_id = 42, da_owner = ex_owner, da_repo = ex_repo\<rparr>,
            Fetch ex_request]))"
    by (simp add: upload_def delete_params_def ex_owner_repo ex_asset_loaded ex_asset_name u
          ex_upload_file ex_env call_def Let_def upload_response_def ex_response_def)
  from overwrite_undefined_acts_as_true
         [OF ex_owner_repo ex_asset_loaded [of "Inr ()" "Inr (ex_response 201)"] f] u
  have e: "upload ?env ex_config ex_url ''dist/app.zip'' ?assets ((), []) =
           upload ?env (ex_config\<lparr>input_overwrite_files := Some True\<rparr>) ex_url ''dist/app.zip''
             ?assets ((), [])"
    by simp
  from ex_owner_repo ex_asset_loaded f u e r show ?thesis by simp
qed

end
